theory Spec2Isabelle
  imports Complex_Main "HOL-Library.Log_Nat"
begin

section \<open>Documents of the persistence store\<close>

text \<open>
  The backend keeps three Mongoose collections that the booking and review handlers
  touch: vehicles, bookings and reviews. An ObjectId is modelled as a natural number and
  a JavaScript \<^verbatim>\<open>Date\<close> as its \<^verbatim>\<open>getTime()\<close> value, the
  milliseconds since the epoch. A finite JavaScript \<^verbatim>\<open>Number\<close> that holds a price
  or a rating average is modelled as the rational it denotes; the product that
  \<^verbatim>\<open>createBooking\<close> stores as \<^verbatim>\<open>totalPrice\<close> is rounded to the nearest double, as
  the source's multiplication rounds it. A string is the list of its code units, which
  the model takes below 256. A collection is the list of its documents in insertion
  order. Request fields that are not a well-formed ObjectId or ISO8601 date are outside
  the model: the types exclude them.
\<close>

type_synonym oid = nat
type_synonym date = int

text \<open>The \<^verbatim>\<open>status\<close> enum of \<^verbatim>\<open>bookingSchema\<close> (src/models/Booking.js).\<close>

datatype booking_status = Pending | Approved | Rejected | Active | Completed | Cancelled

text \<open>
  \<^verbatim>\<open>bookingSchema\<close>. The payment fields are left out: no handler of the booking
  controller reads or writes them.
\<close>

record booking =
  booking_id :: oid
  userId :: oid
  vehicleId :: oid
  startDate :: date
  endDate :: date
  totalPrice :: rat
  status :: booking_status
  pickupLocation :: string
  dropoffLocation :: string
  specialRequests :: "string option"
  cancellationReason :: "string option"
  adminNotes :: "string option"

text \<open>\<^verbatim>\<open>vehicleSchema\<close>, with the fields the booking and review code reads or writes.\<close>

record vehicle =
  vehicle_id :: oid
  owner :: oid
  pricePerDay :: rat
  availability :: bool
  averageRating :: rat
  totalReviews :: nat

text \<open>\<^verbatim>\<open>reviewSchema\<close> (src/models/Review.js).\<close>

record review =
  review_id :: oid
  review_userId :: oid
  review_vehicleId :: oid
  bookingId :: oid
  rating :: int
  comment :: "string option"

record store =
  vehicles :: "vehicle list"
  bookings :: "booking list"
  reviews :: "review list"

text \<open>\<^verbatim>\<open>req.user\<close>, as the auth middleware attaches it to a request.\<close>

datatype user_role = RoleUser | RoleAdmin

record req_user =
  user_id :: oid
  role :: user_role

text \<open>
  What a handler sends: \<^verbatim>\<open>res.status(code).json(...)\<close> with
  \<^verbatim>\<open>success: true\<close> and a payload, or \<^verbatim>\<open>success: false\<close> and a message.
\<close>

datatype 'a response = Success nat 'a | Failure nat string

fun http_status :: "'a response \<Rightarrow> nat" where
  "http_status (Success code payload) = code"
| "http_status (Failure code message) = code"

text \<open>An exception a Mongoose call throws; every handler's \<^verbatim>\<open>catch\<close> answers 500.\<close>

datatype error = ValidationError string | MongoServerError string

text \<open>
  The readings of the environment a create handler takes: the clock when the route's
  validators run, the clock when the schema's validators run at save time, and the
  ObjectId the driver gives the new document.
\<close>

record env =
  clock_request :: date
  clock_save :: date
  fresh_id :: oid

section \<open>Collection primitives\<close>

definition findOne :: "('a \<Rightarrow> bool) \<Rightarrow> 'a list \<Rightarrow> 'a option" where
  "findOne q docs = find q docs"

text \<open>
  \<^verbatim>\<open>findByIdAndUpdate\<close> and \<^verbatim>\<open>findByIdAndDelete\<close> act on the first document
  the filter matches. They are query operations: Mongoose runs no \<^verbatim>\<open>save\<close> or
  \<^verbatim>\<open>remove\<close> document middleware for them.
\<close>

fun findOneAndUpdate :: "('a \<Rightarrow> bool) \<Rightarrow> ('a \<Rightarrow> 'a) \<Rightarrow> 'a list \<Rightarrow> 'a list" where
  "findOneAndUpdate q f [] = []"
| "findOneAndUpdate q f (d # ds) = (if q d then f d # ds else d # findOneAndUpdate q f ds)"

fun findOneAndDelete :: "('a \<Rightarrow> bool) \<Rightarrow> 'a list \<Rightarrow> 'a list" where
  "findOneAndDelete q [] = []"
| "findOneAndDelete q (d # ds) = (if q d then ds else d # findOneAndDelete q ds)"

text \<open>A \<^verbatim>\<open>maxlength\<close> validator on an optional string path.\<close>

definition maxlength :: "nat \<Rightarrow> string option \<Rightarrow> bool" where
  "maxlength n v = (case v of None \<Rightarrow> True | Some t \<Rightarrow> length t \<le> n)"

section \<open>Number multiplication and string trimming\<close>

text \<open>
  IEEE 754 binary64 rounding of a rational, to nearest with ties to even.
  \<open>floor_log2 x\<close> is the exponent \<open>e\<close> with \<open>2^e \<le> x < 2^(e+1)\<close> for positive \<open>x\<close>;
  a double with that exponent is a multiple of \<open>2^(e-52)\<close>, and of \<open>2^(-1074)\<close> in the
  subnormal range below \<open>2^(-1022)\<close>. The result is the value of the source's Number
  for \<open>\<bar>x\<bar> < 2^1024 - 2^970\<close>; from there on the source has \<^verbatim>\<open>Infinity\<close>, which the
  model does not represent.
\<close>

definition round_half_even :: "rat \<Rightarrow> int" where
  "round_half_even x =
     (let f = \<lfloor>x\<rfloor>; d = x - of_int f
      in if d < 1 / 2 then f else if 1 / 2 < d then f + 1 else if even f then f else f + 1)"

definition floor_log2 :: "rat \<Rightarrow> int" where
  "floor_log2 x =
     (let (a, b) = quotient_of x; e = bitlen a - bitlen b
      in if 2 powi e \<le> x then e else e - 1)"

definition round_double :: "rat \<Rightarrow> rat" where
  "round_double x =
     (if x = 0 then 0
      else let e = floor_log2 \<bar>x\<bar>; q = 2 powi (max e (- 1022) - 52)
           in of_int (round_half_even (x / q)) * q)"

definition in_double_range :: "rat \<Rightarrow> bool" where
  "in_double_range x = (\<bar>x\<bar> < 2 ^ 1024 - 2 ^ 970)"

text \<open>The \<^verbatim>\<open>*\<close> of two Numbers.\<close>

definition Number_times :: "rat \<Rightarrow> rat \<Rightarrow> rat" where
  "Number_times a b = round_double (a * b)"

text \<open>
  \<^verbatim>\<open>trim\<close>, of the validator chain and of a schema path with \<^verbatim>\<open>trim: true\<close>:
  white space is removed from both ends. Of the code units below 256 the white space
  ones are tab, line feed, vertical tab, form feed, carriage return, space and the
  no-break space.
\<close>

definition is_space :: "char \<Rightarrow> bool" where
  "is_space c = (of_char c \<in> set [9, 10, 11, 12, 13, 32, 160 :: nat])"

definition trim :: "string \<Rightarrow> string" where
  "trim s = rev (dropWhile is_space (rev (dropWhile is_space s)))"

section \<open>Booking model (src/models/Booking.js)\<close>

text \<open>
  The filter of \<^verbatim>\<open>checkAvailability\<close>: same vehicle, status in
  \<^verbatim>\<open>['approved', 'active']\<close>, \<^verbatim>\<open>startDate < endDate\<close> of the query and
  \<^verbatim>\<open>endDate > startDate\<close> of the query, and \<^verbatim>\<open>_id\<close> different from
  \<^verbatim>\<open>excludeBookingId\<close> when one is given.
\<close>

definition conflict_query :: "oid \<Rightarrow> date \<Rightarrow> date \<Rightarrow> oid option \<Rightarrow> booking \<Rightarrow> bool" where
  "conflict_query v s e x b =
     (vehicleId b = v \<and> status b \<in> set [Approved, Active] \<and>
      (startDate b < e \<and> endDate b > s) \<and>
      (case x of None \<Rightarrow> True | Some i \<Rightarrow> booking_id b \<noteq> i))"

definition checkAvailability :: "booking list \<Rightarrow> oid \<Rightarrow> date \<Rightarrow> date \<Rightarrow> oid option \<Rightarrow> bool" where
  "checkAvailability bs v s e x =
     (case findOne (conflict_query v s e x) bs of None \<Rightarrow> True | Some conflictingBooking \<Rightarrow> False)"

text \<open>The validators of \<^verbatim>\<open>bookingSchema\<close> that run when a document is saved.\<close>

definition booking_schema_valid :: "date \<Rightarrow> booking \<Rightarrow> bool" where
  "booking_schema_valid now b =
     (startDate b \<ge> now \<and> endDate b > startDate b \<and> totalPrice b \<ge> 0 \<and>
      pickupLocation b \<noteq> [] \<and> length (pickupLocation b) \<le> 200 \<and>
      dropoffLocation b \<noteq> [] \<and> length (dropoffLocation b) \<le> 200 \<and>
      maxlength 500 (specialRequests b) \<and>
      maxlength 200 (cancellationReason b) \<and>
      maxlength 500 (adminNotes b))"

text \<open>
  \<^verbatim>\<open>bookingSchema.pre('save')\<close> for a new document: the availability check with the
  document's own id excluded. \<^verbatim>\<open>None\<close> is \<^verbatim>\<open>next()\<close>.
\<close>

definition booking_pre_save :: "booking list \<Rightarrow> booking \<Rightarrow> error option" where
  "booking_pre_save bs b =
     (let isAvailable =
        checkAvailability bs (vehicleId b) (startDate b) (endDate b) (Some (booking_id b))
      in if \<not> isAvailable
         then Some (ValidationError ''Vehicle is not available for the selected dates'')
         else None)"

text \<open>
  \<^verbatim>\<open>Booking.create\<close>: schema validation, the pre-save hook, then the insert, which
  the unique index on \<^verbatim>\<open>_id\<close> refuses for an id already in the collection.
\<close>

definition Booking_create :: "date \<Rightarrow> booking \<Rightarrow> booking list \<Rightarrow> error + booking list" where
  "Booking_create now b bs =
     (if \<not> booking_schema_valid now b then Inl (ValidationError ''Booking validation failed'')
      else case booking_pre_save bs b of
        Some err \<Rightarrow> Inl err
      | None \<Rightarrow>
          if booking_id b \<in> set (map booking_id bs)
          then Inl (MongoServerError ''E11000 duplicate key error'')
          else Inr (bs @ [b]))"

section \<open>Booking controller (bookingController.js, src/unnamed/part_003)\<close>

record booking_request =
  req_vehicleId :: oid
  req_startDate :: date
  req_endDate :: date
  req_pickupLocation :: string
  req_dropoffLocation :: string
  req_specialRequests :: "string option"

text \<open>
  \<^verbatim>\<open>bookingValidation\<close> of src/routes/bookingRoutes.js: true when
  \<^verbatim>\<open>validationResult(req)\<close> is empty.
\<close>

definition bookingValidation :: "date \<Rightarrow> booking_request \<Rightarrow> bool" where
  "bookingValidation now r =
     (\<not> (req_startDate r \<le> now) \<and>
      \<not> (req_endDate r \<le> req_startDate r) \<and>
      req_pickupLocation r \<noteq> [] \<and> length (req_pickupLocation r) \<le> 200 \<and>
      req_dropoffLocation r \<noteq> [] \<and> length (req_dropoffLocation r) \<le> 200 \<and>
      maxlength 500 (req_specialRequests r))"

text \<open>
  \<^verbatim>\<open>Math.ceil(timeDiff / (1000 * 3600 * 24))\<close>. The quotient is taken exactly: a
  time difference of at most \<open>2^53\<close> ms is fewer than \<open>2^27\<close> days, where doubles lie
  closer together than \<open>1 / 86400000\<close>, so the double quotient has the same ceiling.
\<close>

definition days_of :: "int \<Rightarrow> int" where
  "days_of timeDiff = \<lceil>(of_int timeDiff :: rat) / (1000 * 3600 * 24)\<rceil>"

definition createBooking ::
  "env \<Rightarrow> req_user \<Rightarrow> booking_request \<Rightarrow> store \<Rightarrow> booking response \<times> store" where
  "createBooking ev u r st =
     (if \<not> bookingValidation (clock_request ev) r then (Failure 400 ''Validation failed'', st)
      else case findOne (\<lambda>v. vehicle_id v = req_vehicleId r) (vehicles st) of
        None \<Rightarrow> (Failure 404 ''Vehicle not found'', st)
      | Some veh \<Rightarrow>
          if \<not> availability veh then (Failure 400 ''Vehicle is not available'', st)
          else
            let start = req_startDate r; end' = req_endDate r;
                isAvailable = checkAvailability (bookings st) (req_vehicleId r) start end' None
            in if \<not> isAvailable
               then (Failure 400 ''Vehicle is not available for the selected dates'', st)
               else
                 let timeDiff = end' - start;
                     days = days_of timeDiff;
                     price = Number_times (of_int days) (pricePerDay veh);
                     b = \<lparr>booking_id = fresh_id ev, userId = user_id u,
                          vehicleId = req_vehicleId r, startDate = start, endDate = end',
                          totalPrice = price, status = Pending,
                          pickupLocation = req_pickupLocation r,
                          dropoffLocation = req_dropoffLocation r,
                          specialRequests = req_specialRequests r,
                          cancellationReason = None, adminNotes = None\<rparr>
                 in case Booking_create (clock_save ev) b (bookings st) of
                      Inl err \<Rightarrow> (Failure 500 ''Server error while creating booking'', st)
                    | Inr bs' \<Rightarrow> (Success 201 b, st\<lparr>bookings := bs'\<rparr>))"

text \<open>
  The test \<^verbatim>\<open>[...].includes(status)\<close> of \<^verbatim>\<open>updateBookingStatus\<close> on the
  \<^verbatim>\<open>status\<close> string of the request body, with the enum value the string names.
\<close>

definition status_of_string :: "string \<Rightarrow> booking_status option" where
  "status_of_string s =
     (if s = ''pending'' then Some Pending
      else if s = ''approved'' then Some Approved
      else if s = ''rejected'' then Some Rejected
      else if s = ''active'' then Some Active
      else if s = ''completed'' then Some Completed
      else if s = ''cancelled'' then Some Cancelled
      else None)"

fun string_of_status :: "booking_status \<Rightarrow> string" where
  "string_of_status Pending = ''pending''"
| "string_of_status Approved = ''approved''"
| "string_of_status Rejected = ''rejected''"
| "string_of_status Active = ''active''"
| "string_of_status Completed = ''completed''"
| "string_of_status Cancelled = ''cancelled''"

text \<open>
  \<^verbatim>\<open>updateBookingStatus\<close>. The handler never reads
  \<^verbatim>\<open>validationResult(req)\<close>, so the route's validators decide nothing; the update
  runs with \<^verbatim>\<open>runValidators\<close>, which checks \<^verbatim>\<open>adminNotes\<close> against its
  \<^verbatim>\<open>maxlength\<close> and throws when it fails. \<^verbatim>\<open>adminNotes\<close> is written only
  when it is truthy (present and not the empty string). The route admits administrators
  only, through middleware that is not among these sources; the handler itself does not
  look at the caller.
\<close>

definition updateBookingStatus ::
  "oid \<Rightarrow> string \<Rightarrow> string option \<Rightarrow> store \<Rightarrow> booking response \<times> store" where
  "updateBookingStatus i s notes st =
     (case status_of_string s of
        None \<Rightarrow> (Failure 400 ''Invalid status'', st)
      | Some target \<Rightarrow>
          (case findOne (\<lambda>b. booking_id b = i) (bookings st) of
             None \<Rightarrow> (Failure 404 ''Booking not found'', st)
           | Some b \<Rightarrow>
               let truthy = (case notes of None \<Rightarrow> False | Some t \<Rightarrow> t \<noteq> []);
                   upd = (\<lambda>d. if truthy then d\<lparr>status := target, adminNotes := notes\<rparr>
                               else d\<lparr>status := target\<rparr>)
               in if truthy \<and> \<not> maxlength 500 notes
                  then (Failure 500 ''Server error while updating booking status'', st)
                  else (Success 200 (upd b),
                        st\<lparr>bookings := findOneAndUpdate (\<lambda>d. booking_id d = i) upd (bookings st)\<rparr>)))"

text \<open>
  \<^verbatim>\<open>cancelBooking\<close>. An absent \<^verbatim>\<open>cancellationReason\<close> is
  \<^verbatim>\<open>undefined\<close>, which Mongoose strips from the update.
\<close>

definition cancelBooking ::
  "req_user \<Rightarrow> oid \<Rightarrow> string option \<Rightarrow> store \<Rightarrow> booking response \<times> store" where
  "cancelBooking u i reason st =
     (case findOne (\<lambda>b. booking_id b = i) (bookings st) of
        None \<Rightarrow> (Failure 404 ''Booking not found'', st)
      | Some b \<Rightarrow>
          if role u \<noteq> RoleAdmin \<and> userId b \<noteq> user_id u
          then (Failure 403 ''Not authorized to cancel this booking'', st)
          else if \<not> (status b \<in> set [Pending, Approved])
          then (Failure 400 ''Booking cannot be cancelled in current status'', st)
          else
            let upd = (\<lambda>d. case reason of
                              None \<Rightarrow> d\<lparr>status := Cancelled\<rparr>
                            | Some t \<Rightarrow> d\<lparr>status := Cancelled, cancellationReason := Some t\<rparr>)
            in if \<not> maxlength 200 reason
               then (Failure 500 ''Server error while cancelling booking'', st)
               else (Success 200 (upd b),
                     st\<lparr>bookings := findOneAndUpdate (\<lambda>d. booking_id d = i) upd (bookings st)\<rparr>))"

text \<open>
  The invariant the availability check is there for: no two distinct bookings of one
  vehicle, both approved or active, overlap as half-open intervals.
\<close>

definition blocking :: "booking \<Rightarrow> bool" where
  "blocking b = (status b \<in> set [Approved, Active])"

definition overlap :: "booking \<Rightarrow> booking \<Rightarrow> bool" where
  "overlap b1 b2 = (startDate b1 < endDate b2 \<and> endDate b1 > startDate b2)"

definition double_booked :: "booking \<Rightarrow> booking \<Rightarrow> bool" where
  "double_booked b1 b2 =
     (booking_id b1 \<noteq> booking_id b2 \<and> vehicleId b1 = vehicleId b2 \<and>
      blocking b1 \<and> blocking b2 \<and> overlap b1 b2)"

definition no_double_booking :: "booking list \<Rightarrow> bool" where
  "no_double_booking bs = list_all (\<lambda>b1. list_all (\<lambda>b2. \<not> double_booked b1 b2) bs) bs"

section \<open>Review model (src/models/Review.js)\<close>

text \<open>\<^verbatim>\<open>Math.round\<close>: the nearest integer, a half rounded up.\<close>

definition Math_round :: "rat \<Rightarrow> int" where
  "Math_round x = \<lfloor>x + 1 / 2\<rfloor>"

text \<open>
  \<^verbatim>\<open>calcAverageRating\<close>: the \<^verbatim>\<open>$match\<close> and \<^verbatim>\<open>$group\<close> stages yield one
  group when a review of the vehicle exists and none otherwise; the vehicle document is
  then updated by id.
\<close>

definition calcAverageRating :: "oid \<Rightarrow> store \<Rightarrow> store" where
  "calcAverageRating v st =
     (let matched = filter (\<lambda>r. review_vehicleId r = v) (reviews st) in
      if length matched > 0
      then
        let avgRating = (of_int (sum_list (map rating matched)) :: rat) / of_nat (length matched);
            numRatings = length matched
        in st\<lparr>vehicles :=
                findOneAndUpdate (\<lambda>x. vehicle_id x = v)
                  (\<lambda>x. x\<lparr>averageRating := of_int (Math_round (avgRating * 10)) / 10,
                          totalReviews := numRatings\<rparr>)
                  (vehicles st)\<rparr>
      else st\<lparr>vehicles :=
                findOneAndUpdate (\<lambda>x. vehicle_id x = v)
                  (\<lambda>x. x\<lparr>averageRating := 0, totalReviews := 0\<rparr>)
                  (vehicles st)\<rparr>)"

text \<open>The validators of \<^verbatim>\<open>reviewSchema\<close> that run when a document is saved.\<close>

definition review_schema_valid :: "review \<Rightarrow> bool" where
  "review_schema_valid r = (1 \<le> rating r \<and> rating r \<le> 5 \<and> maxlength 500 (comment r))"

text \<open>
  \<^verbatim>\<open>reviewSchema.pre('save')\<close> for a new document: a completed booking with the
  review's booking id, user and vehicle must exist. \<^verbatim>\<open>None\<close> is \<^verbatim>\<open>next()\<close>.
\<close>

definition review_pre_save :: "booking list \<Rightarrow> review \<Rightarrow> error option" where
  "review_pre_save bs r =
     (case findOne (\<lambda>b. booking_id b = bookingId r \<and> userId b = review_userId r \<and>
                        vehicleId b = review_vehicleId r \<and> status b = Completed) bs of
        None \<Rightarrow> Some (ValidationError ''You can only review vehicles from completed bookings'')
      | Some b \<Rightarrow> None)"

text \<open>
  \<^verbatim>\<open>Review.create\<close>: the setter of \<^verbatim>\<open>trim: true\<close> on \<^verbatim>\<open>comment\<close>, schema
  validation, the pre-save hook, the insert (refused by the unique indexes on
  \<^verbatim>\<open>_id\<close> and on \<^verbatim>\<open>(userId, bookingId)\<close>), then the \<^verbatim>\<open>post('save')\<close> hook,
  which recomputes the vehicle's rating. The hook's call is not awaited in the source;
  the model takes the store after it has completed. The result is the created document
  with the store.
\<close>

definition Review_create :: "review \<Rightarrow> store \<Rightarrow> error + review \<times> store" where
  "Review_create r0 st =
     (let r = r0\<lparr>comment := map_option trim (comment r0)\<rparr> in
      if \<not> review_schema_valid r then Inl (ValidationError ''Review validation failed'')
      else case review_pre_save (bookings st) r of
        Some err \<Rightarrow> Inl err
      | None \<Rightarrow>
          if review_id r \<in> set (map review_id (reviews st)) \<or>
             (review_userId r, bookingId r) \<in>
               set (map (\<lambda>x. (review_userId x, bookingId x)) (reviews st))
          then Inl (MongoServerError ''E11000 duplicate key error'')
          else Inr (r, calcAverageRating (review_vehicleId r) (st\<lparr>reviews := reviews st @ [r]\<rparr>)))"

section \<open>Review controller (src/controllers/reviewController.js)\<close>

record review_request =
  rreq_vehicleId :: oid
  rreq_bookingId :: oid
  rreq_rating :: int
  rreq_comment :: "string option"

text \<open>
  \<^verbatim>\<open>reviewValidation\<close> and \<^verbatim>\<open>updateReviewValidation\<close> of the review routes
  (src/unnamed/part_001): true when \<^verbatim>\<open>validationResult(req)\<close> is empty. The chain on
  \<^verbatim>\<open>comment\<close> is \<^verbatim>\<open>optional().isLength({ max: 500 }).trim()\<close>: the length rule
  reads the comment as sent, and the sanitizer then replaces it in the body by the
  trimmed string, which is what the handler reads.
\<close>

definition reviewValidation :: "review_request \<Rightarrow> bool" where
  "reviewValidation r = (1 \<le> rreq_rating r \<and> rreq_rating r \<le> 5 \<and> maxlength 500 (rreq_comment r))"

definition updateReviewValidation :: "int option \<Rightarrow> string option \<Rightarrow> bool" where
  "updateReviewValidation rt cm =
     ((case rt of None \<Rightarrow> True | Some n \<Rightarrow> 1 \<le> n \<and> n \<le> 5) \<and> maxlength 500 cm)"

definition createReview ::
  "env \<Rightarrow> req_user \<Rightarrow> review_request \<Rightarrow> store \<Rightarrow> review response \<times> store" where
  "createReview ev u r st =
     (if \<not> reviewValidation r then (Failure 400 ''Validation failed'', st)
      else case findOne (\<lambda>b. booking_id b = rreq_bookingId r \<and> userId b = user_id u \<and>
                              vehicleId b = rreq_vehicleId r \<and> status b = Completed)
                  (bookings st) of
        None \<Rightarrow> (Failure 404 ''Completed booking not found or does not belong to you'', st)
      | Some b \<Rightarrow>
          (case findOne (\<lambda>x. review_userId x = user_id u \<and> bookingId x = rreq_bookingId r)
                  (reviews st) of
             Some existingReview \<Rightarrow> (Failure 400 ''You have already reviewed this booking'', st)
           | None \<Rightarrow>
               let sanitized = map_option trim (rreq_comment r);
                   rv = \<lparr>review_id = fresh_id ev, review_userId = user_id u,
                         review_vehicleId = rreq_vehicleId r, bookingId = rreq_bookingId r,
                         rating = rreq_rating r, comment = sanitized\<rparr>
               in case Review_create rv st of
                    Inl err \<Rightarrow> (Failure 500 ''Server error while creating review'', st)
                  | Inr (created, st') \<Rightarrow> (Success 201 created, st')))"

text \<open>
  \<^verbatim>\<open>updateReview\<close>: \<^verbatim>\<open>findByIdAndUpdate\<close> with the fields of the body that are
  present, the comment as the route's sanitizer left it and cast through the schema's
  \<^verbatim>\<open>trim: true\<close> setter. No hook of \<^verbatim>\<open>reviewSchema\<close> runs.
\<close>

definition updateReview ::
  "req_user \<Rightarrow> oid \<Rightarrow> int option \<Rightarrow> string option \<Rightarrow> store \<Rightarrow> review response \<times> store" where
  "updateReview u i rt cm st =
     (if \<not> updateReviewValidation rt cm then (Failure 400 ''Validation failed'', st)
      else case findOne (\<lambda>x. review_id x = i) (reviews st) of
        None \<Rightarrow> (Failure 404 ''Review not found'', st)
      | Some rv \<Rightarrow>
          if review_userId rv \<noteq> user_id u
          then (Failure 403 ''Not authorized to update this review'', st)
          else
            let sanitized = map_option trim cm;
                upd = (\<lambda>x. let y = (case rt of None \<Rightarrow> x | Some n \<Rightarrow> x\<lparr>rating := n\<rparr>)
                            in (case sanitized of None \<Rightarrow> y
                                | Some t \<Rightarrow> y\<lparr>comment := Some (trim t)\<rparr>))
            in (Success 200 (upd rv),
                st\<lparr>reviews := findOneAndUpdate (\<lambda>x. review_id x = i) upd (reviews st)\<rparr>))"

text \<open>
  \<^verbatim>\<open>deleteReview\<close>: \<^verbatim>\<open>findByIdAndDelete\<close>. The \<^verbatim>\<open>post('remove')\<close> hook of
  \<^verbatim>\<open>reviewSchema\<close> is document middleware, which this query does not run.
\<close>

definition deleteReview :: "req_user \<Rightarrow> oid \<Rightarrow> store \<Rightarrow> string response \<times> store" where
  "deleteReview u i st =
     (case findOne (\<lambda>x. review_id x = i) (reviews st) of
        None \<Rightarrow> (Failure 404 ''Review not found'', st)
      | Some rv \<Rightarrow>
          if review_userId rv \<noteq> user_id u \<and> role u \<noteq> RoleAdmin
          then (Failure 403 ''Not authorized to delete this review'', st)
          else (Success 200 ''Review deleted successfully'',
                st\<lparr>reviews := findOneAndDelete (\<lambda>x. review_id x = i) (reviews st)\<rparr>))"

section \<open>Example data\<close>

text \<open>
  One vehicle at 100 per day, three callers and an administrator, and two booking
  requests: three nights, and twenty-five hours. A day is 86400000 ms.
\<close>

definition demo_vehicle :: vehicle where
  "demo_vehicle = \<lparr>vehicle_id = 1, owner = 99, pricePerDay = 100, availability = True,
                    averageRating = 0, totalReviews = 0\<rparr>"

definition demo_store :: store where
  "demo_store = \<lparr>vehicles = [demo_vehicle], bookings = [], reviews = []\<rparr>"

definition alice :: req_user where
  "alice = \<lparr>user_id = 10, role = RoleUser\<rparr>"

definition bob :: req_user where
  "bob = \<lparr>user_id = 11, role = RoleUser\<rparr>"

definition carol :: req_user where
  "carol = \<lparr>user_id = 12, role = RoleUser\<rparr>"

definition admin_user :: req_user where
  "admin_user = \<lparr>user_id = 99, role = RoleAdmin\<rparr>"

definition env1 :: env where
  "env1 = \<lparr>clock_request = 1000, clock_save = 1001, fresh_id = 1\<rparr>"

definition env2 :: env where
  "env2 = \<lparr>clock_request = 2000, clock_save = 2001, fresh_id = 2\<rparr>"

definition env3 :: env where
  "env3 = \<lparr>clock_request = 3000, clock_save = 3001, fresh_id = 3\<rparr>"

definition request_3_nights :: booking_request where
  "request_3_nights =
     \<lparr>req_vehicleId = 1, req_startDate = 86400000, req_endDate = 345600000,
      req_pickupLocation = ''Airport'', req_dropoffLocation = ''Harbour'',
      req_specialRequests = None\<rparr>"

definition request_25_hours :: booking_request where
  "request_25_hours =
     \<lparr>req_vehicleId = 1, req_startDate = 86400000, req_endDate = 176400000,
      req_pickupLocation = ''Airport'', req_dropoffLocation = ''Harbour'',
      req_specialRequests = None\<rparr>"

definition booking_3_nights :: booking where
  "booking_3_nights =
     \<lparr>booking_id = 1, userId = 10, vehicleId = 1, startDate = 86400000, endDate = 345600000,
      totalPrice = 300, status = Pending, pickupLocation = ''Airport'',
      dropoffLocation = ''Harbour'', specialRequests = None, cancellationReason = None,
      adminNotes = None\<rparr>"

definition booking_25_hours :: booking where
  "booking_25_hours =
     \<lparr>booking_id = 1, userId = 10, vehicleId = 1, startDate = 86400000, endDate = 176400000,
      totalPrice = 200, status = Pending, pickupLocation = ''Airport'',
      dropoffLocation = ''Harbour'', specialRequests = None, cancellationReason = None,
      adminNotes = None\<rparr>"

text \<open>
  A vehicle whose price per day is the double nearest to 0.1, and the booking that three
  nights of it give.
\<close>

definition tenth_vehicle :: vehicle where
  "tenth_vehicle = demo_vehicle\<lparr>pricePerDay := 3602879701896397 / 36028797018963968\<rparr>"

definition tenth_store :: store where
  "tenth_store = demo_store\<lparr>vehicles := [tenth_vehicle]\<rparr>"

definition booking_tenth :: booking where
  "booking_tenth = booking_3_nights\<lparr>totalPrice := 1351079888211149 / 4503599627370496\<rparr>"

definition unavailable_store :: store where
  "unavailable_store = demo_store\<lparr>vehicles := [demo_vehicle\<lparr>availability := False\<rparr>]\<rparr>"

definition approved_store :: store where
  "approved_store = demo_store\<lparr>bookings := [booking_3_nights\<lparr>status := Approved\<rparr>]\<rparr>"

definition completed_store :: store where
  "completed_store = demo_store\<lparr>bookings := [booking_3_nights\<lparr>status := Completed\<rparr>]\<rparr>"

text \<open>
  A run of the booking handlers from the empty booking collection: two callers book
  overlapping dates of the same vehicle, then the administrator approves both.
\<close>

definition request_overlap :: booking_request where
  "request_overlap =
     \<lparr>req_vehicleId = 1, req_startDate = 172800000, req_endDate = 432000000,
      req_pickupLocation = ''Station'', req_dropoffLocation = ''Station'',
      req_specialRequests = None\<rparr>"

definition run_created_1 :: store where
  "run_created_1 = snd (createBooking env1 alice request_3_nights demo_store)"

definition run_created_2 :: store where
  "run_created_2 = snd (createBooking env2 bob request_overlap run_created_1)"

definition run_approved_1 :: store where
  "run_approved_1 = snd (updateBookingStatus 1 ''approved'' None run_created_2)"

definition run_approved_2 :: store where
  "run_approved_2 = snd (updateBookingStatus 2 ''approved'' None run_approved_1)"

definition booking_overlap :: booking where
  "booking_overlap =
     \<lparr>booking_id = 2, userId = 11, vehicleId = 1, startDate = 172800000, endDate = 432000000,
      totalPrice = 300, status = Pending, pickupLocation = ''Station'',
      dropoffLocation = ''Station'', specialRequests = None, cancellationReason = None,
      adminNotes = None\<rparr>"

text \<open>
  A run of the review handlers: three callers, each with a completed booking of vehicle 1,
  review it with the ratings 5, 4 and 3. \<open>rating_of\<close> reads the rating rollup of
  every vehicle of a store.
\<close>

definition completed_booking :: "oid \<Rightarrow> oid \<Rightarrow> booking" where
  "completed_booking k uid =
     \<lparr>booking_id = k, userId = uid, vehicleId = 1, startDate = 86400000, endDate = 172800000,
      totalPrice = 100, status = Completed, pickupLocation = ''Airport'',
      dropoffLocation = ''Airport'', specialRequests = None, cancellationReason = None,
      adminNotes = None\<rparr>"

definition rated_store :: store where
  "rated_store =
     \<lparr>vehicles = [demo_vehicle],
      bookings = [completed_booking 1 10, completed_booking 2 11, completed_booking 3 12],
      reviews = []\<rparr>"

definition review_request_of :: "oid \<Rightarrow> int \<Rightarrow> review_request" where
  "review_request_of k n =
     \<lparr>rreq_vehicleId = 1, rreq_bookingId = k, rreq_rating = n, rreq_comment = None\<rparr>"

definition review_of :: "oid \<Rightarrow> oid \<Rightarrow> int \<Rightarrow> review" where
  "review_of k uid n =
     \<lparr>review_id = k, review_userId = uid, review_vehicleId = 1, bookingId = k,
      rating = n, comment = None\<rparr>"

definition reviewed_1 :: store where
  "reviewed_1 = snd (createReview env1 alice (review_request_of 1 5) rated_store)"

definition reviewed_2 :: store where
  "reviewed_2 = snd (createReview env2 bob (review_request_of 2 4) reviewed_1)"

definition reviewed_3 :: store where
  "reviewed_3 = snd (createReview env3 carol (review_request_of 3 3) reviewed_2)"

text \<open>
  A comment of 501 code units that trims to 499, and a review request whose comment has
  white space at both ends.
\<close>

definition long_comment :: string where
  "long_comment = replicate 499 (CHR ''a'') @ ''  ''"

definition padded_request :: review_request where
  "padded_request =
     \<lparr>rreq_vehicleId = 1, rreq_bookingId = 1, rreq_rating = 5, rreq_comment = Some ''  good  ''\<rparr>"

definition rating_of :: "store \<Rightarrow> (rat \<times> nat) list" where
  "rating_of st = map (\<lambda>v. (averageRating v, totalReviews v)) (vehicles st)"

section \<open>Properties of the availability check\<close>

lemma findOne_None_iff: "findOne q docs = None \<longleftrightarrow> (\<forall>d \<in> set docs. \<not> q d)"
  by (auto simp: findOne_def find_None_iff)

lemma checkAvailability_no_conflict:
  "checkAvailability bs v s e x \<longleftrightarrow> (\<forall>b \<in> set bs. \<not> conflict_query v s e x b)"
  by (simp add: checkAvailability_def findOne_None_iff [symmetric] split: option.splits)

lemma findOne_Some_set: "findOne q ds = Some d \<Longrightarrow> d \<in> set ds \<and> q d"
  by (auto simp: findOne_def find_Some_iff)

lemma findOne_findOneAndUpdate:
  "findOne q ds = Some d \<Longrightarrow> q (f d) \<Longrightarrow> findOne q (findOneAndUpdate q f ds) = Some (f d)"
  by (induction ds) (auto simp: findOne_def)

lemma status_of_string_of_status [simp]: "status_of_string (string_of_status t) = Some t"
  by (cases t) (simp_all add: status_of_string_def)

lemma days_of_pos: "0 < d \<Longrightarrow> 0 < days_of d"
  by (simp add: days_of_def)

lemma checkAvailability_exclude:
  "checkAvailability bs v s e None \<Longrightarrow> checkAvailability bs v s e x"
  by (auto simp: checkAvailability_no_conflict conflict_query_def)

section \<open>Properties of Number multiplication\<close>

lemma round_half_even_of_int [simp]: "round_half_even (of_int n) = n"
  by (simp add: round_half_even_def)

lemma round_half_even_nonneg: "0 \<le> x \<Longrightarrow> 0 \<le> round_half_even x"
  by (auto simp: round_half_even_def Let_def)

lemma floor_log2_le:
  assumes "0 < x"
  shows "2 powi floor_log2 x \<le> x"
proof -
  obtain a b where q: "quotient_of x = (a, b)" by (cases "quotient_of x")
  then have b: "0 < b" using quotient_of_denom_pos by blast
  from q have x: "x = of_int a / of_int b" by (rule quotient_of_div)
  with assms b have a: "0 < a" by (simp add: zero_less_divide_iff)
  define e where "e = bitlen a - bitlen b"
  show ?thesis
  proof (cases "2 powi e \<le> x")
    case True
    then show ?thesis by (simp add: floor_log2_def q e_def)
  next
    case False
    then have fl: "floor_log2 x = e - 1" by (simp add: floor_log2_def q e_def)
    have la: "(2::int) ^ nat (bitlen a - 1) \<le> a" using bitlen_bounds [OF a] by simp
    have lb: "b < (2::int) ^ nat (bitlen b)" using bitlen_bounds [OF b] by simp
    have pa: "0 < bitlen a" using a bitlen_eq_zero_iff [of a] bitlen_nonneg [of a] by linarith
    have pb: "0 \<le> bitlen b" by (rule bitlen_nonneg)
    have "e - 1 = (bitlen a - 1) - bitlen b" by (simp add: e_def)
    then have "(2::rat) powi (e - 1) = 2 powi (bitlen a - 1) / 2 powi (bitlen b)"
      by (simp only: power_int_diff [of "2::rat", simplified])
    also have "\<dots> = 2 ^ nat (bitlen a - 1) / 2 ^ nat (bitlen b)"
      using pa pb by (simp add: power_int_def)
    also have "\<dots> \<le> of_int a / 2 ^ nat (bitlen b)"
    proof -
      have "(2::rat) ^ nat (bitlen a - 1) \<le> of_int a"
        using la by (metis of_int_le_iff of_int_numeral of_int_power)
      then show ?thesis by (simp add: divide_right_mono)
    qed
    also have "\<dots> \<le> of_int a / of_int b"
    proof -
      have "(of_int b :: rat) \<le> 2 ^ nat (bitlen b)"
        using lb by (metis less_imp_le of_int_le_iff of_int_numeral of_int_power)
      moreover have "(0::rat) < of_int b" using b by simp
      moreover have "(0::rat) \<le> of_int a" using a by simp
      ultimately show ?thesis by (simp add: frac_le)
    qed
    finally have "(2::rat) powi (e - 1) \<le> of_int a / of_int b" .
    then show ?thesis unfolding fl using x by simp
  qed
qed

lemma round_double_of_int:
  assumes "\<bar>n\<bar> < 2 ^ 53"
  shows "round_double (of_int n) = of_int n"
proof (cases "n = 0")
  case True
  then show ?thesis by (simp add: round_double_def)
next
  case False
  define e where "e = floor_log2 \<bar>of_int n\<bar>"
  define k where "k = max e (- 1022) - 52"
  have "(2::rat) powi e \<le> \<bar>of_int n\<bar>"
    unfolding e_def using False by (intro floor_log2_le) simp
  also have "\<dots> < 2 powi 53"
  proof -
    have "(of_int \<bar>n\<bar> :: rat) < of_int (2 ^ 53)"
      using assms by (simp only: of_int_less_iff)
    then show ?thesis
      by (simp only: of_int_abs of_int_power of_int_numeral power_int_numeral)
  qed
  finally have "(2::rat) powi e < 2 powi 53" .
  then have "e < 53" by (rule power_int_le_imp_less_exp [rotated]) simp_all
  then have k: "k \<le> 0" by (simp add: k_def)
  define m where "m = nat (- k)"
  have "k = - int m" using k by (simp add: m_def)
  then have "(2::rat) powi k = inverse (2 powi int m)" by (simp only: power_int_minus)
  then have q: "(2::rat) powi k = 1 / 2 ^ m"
    by (simp only: power_int_of_nat inverse_eq_divide)
  have "of_int n / (2::rat) powi k = of_int (n * 2 ^ m)" by (simp add: q)
  then have "round_half_even (of_int n / (2::rat) powi k) = n * 2 ^ m"
    by (simp only: round_half_even_of_int)
  then have "of_int (round_half_even (of_int n / (2::rat) powi k)) * (2::rat) powi k = of_int n"
    by (simp add: q)
  with False show ?thesis
    by (simp add: round_double_def Let_def e_def k_def)
qed

lemma round_double_nonneg: "0 \<le> x \<Longrightarrow> 0 \<le> round_double x"
  by (auto simp: round_double_def Let_def intro!: mult_nonneg_nonneg round_half_even_nonneg
      divide_nonneg_nonneg)

lemma Number_times_of_int:
  "\<bar>a * b\<bar> < 2 ^ 53 \<Longrightarrow> Number_times (of_int a) (of_int b) = of_int a * of_int b"
  using round_double_of_int [of "a * b"] by (simp add: Number_times_def)

lemma Number_times_numeral:
  "numeral a * numeral b < (9007199254740992 :: int) \<Longrightarrow>
     Number_times (numeral a) (numeral b) = numeral a * numeral b"
  using Number_times_of_int [of "numeral a" "numeral b"] by simp

lemma Number_times_nonneg: "0 \<le> a \<Longrightarrow> 0 \<le> b \<Longrightarrow> 0 \<le> Number_times a b"
  by (simp add: Number_times_def round_double_nonneg)

lemma double_of_tenth: "round_double (1 / 10) = 3602879701896397 / 36028797018963968"
  by code_simp

lemma three_times_tenth:
  "Number_times 3 (3602879701896397 / 36028797018963968) =
     1351079888211149 / 4503599627370496"
  by code_simp

lemmas demo_defs =
  demo_vehicle_def demo_store_def alice_def bob_def carol_def admin_user_def
  env1_def env2_def env3_def request_3_nights_def request_25_hours_def
  booking_3_nights_def booking_25_hours_def
  unavailable_store_def approved_store_def completed_store_def
  request_overlap_def booking_overlap_def
  tenth_vehicle_def tenth_store_def booking_tenth_def

lemmas booking_defs =
  createBooking_def bookingValidation_def maxlength_def findOne_def checkAvailability_def
  conflict_query_def Booking_create_def booking_schema_valid_def booking_pre_save_def
  updateBookingStatus_def cancelBooking_def status_of_string_def Let_def
  Number_times_numeral three_times_tenth

text \<open>
  Claim C2. For every booking collection, vehicle \<open>v\<close>, dates \<open>s\<close>, \<open>e\<close> and optional
  excluded id \<open>x\<close>, \<open>checkAvailability\<close> answers true exactly when no booking of \<open>v\<close>
  that is approved or active and whose id is not \<open>x\<close> has \<open>startDate < e\<close> and
  \<open>endDate > s\<close>. The intervals are half-open: a query that starts at the instant a
  booking ends, or ends at the instant a booking starts, does not conflict with it.
\<close>

theorem checkAvailability_iff:
  "(checkAvailability bs v s e x \<longleftrightarrow>
      \<not> (\<exists>b \<in> set bs. vehicleId b = v \<and> (status b = Approved \<or> status b = Active) \<and>
            (case x of None \<Rightarrow> True | Some i \<Rightarrow> booking_id b \<noteq> i) \<and>
            startDate b < e \<and> endDate b > s)) \<and>
   checkAvailability [b1] (vehicleId b1) (endDate b1) e x \<and>
   checkAvailability [b1] (vehicleId b1) s (startDate b1) x"
  by (auto simp: checkAvailability_no_conflict conflict_query_def)

theorem checkAvailability_iff_witness:
  "\<not> checkAvailability [booking_3_nights\<lparr>status := Approved\<rparr>] 1 345599999 400000000 None \<and>
   checkAvailability [booking_3_nights\<lparr>status := Approved\<rparr>] 1 345599999 400000000 (Some 1) \<and>
   checkAvailability [booking_3_nights\<lparr>status := Approved\<rparr>] 1 345600000 400000000 None \<and>
   checkAvailability [booking_3_nights] 1 345599999 400000000 None"
  using checkAvailability_iff [of "[booking_3_nights\<lparr>status := Approved\<rparr>]" 1 345599999 400000000 None]
    checkAvailability_iff [of "[booking_3_nights\<lparr>status := Approved\<rparr>]" 1 345599999 400000000 "Some 1"]
    checkAvailability_iff [of "[booking_3_nights\<lparr>status := Approved\<rparr>]" 1 345600000 400000000 None]
    checkAvailability_iff [of "[booking_3_nights]" 1 345599999 400000000 None]
  by (simp add: booking_3_nights_def)

text \<open>
  Claim C10. \<open>checkAvailability\<close> is antitone in the queried interval: when
  \<open>[s, e)\<close> is available, so is every \<open>[s', e')\<close> with \<open>s \<le> s' < e' \<le> e\<close>.
\<close>

theorem checkAvailability_antitone:
  "s \<le> s' \<Longrightarrow> s' < e' \<Longrightarrow> e' \<le> e \<Longrightarrow> checkAvailability bs v s e x \<Longrightarrow>
   checkAvailability bs v s' e' x"
  by (fastforce simp: checkAvailability_no_conflict conflict_query_def)

theorem checkAvailability_antitone_witness:
  "checkAvailability [booking_3_nights\<lparr>status := Active\<rparr>] 1 345600000 500000000 None \<and>
   checkAvailability [booking_3_nights\<lparr>status := Active\<rparr>] 1 400000000 450000000 None"
proof -
  have avail: "checkAvailability [booking_3_nights\<lparr>status := Active\<rparr>] 1 345600000 500000000 None"
    by (simp add: booking_defs booking_3_nights_def)
  from checkAvailability_antitone [OF _ _ _ avail, of 400000000 450000000] avail
  show ?thesis by simp
qed

section \<open>Creating a booking\<close>

lemma Booking_create_Inr:
  "Booking_create now b bs = Inr bs' \<Longrightarrow> bs' = bs @ [b]"
  by (auto simp: Booking_create_def split: if_splits option.splits)

lemma createBooking_Success:
  assumes "createBooking ev u r st = (Success c b, st')"
  shows "\<exists>veh. findOne (\<lambda>v. vehicle_id v = req_vehicleId r) (vehicles st) = Some veh \<and>
           availability veh \<and> bookingValidation (clock_request ev) r \<and>
           checkAvailability (bookings st) (req_vehicleId r) (req_startDate r) (req_endDate r) None \<and>
           c = 201 \<and> st' = st\<lparr>bookings := bookings st @ [b]\<rparr> \<and>
           booking_id b = fresh_id ev \<and> userId b = user_id u \<and>
           vehicleId b = req_vehicleId r \<and>
           startDate b = req_startDate r \<and> endDate b = req_endDate r \<and>
           totalPrice b =
             Number_times (of_int (days_of (req_endDate r - req_startDate r))) (pricePerDay veh) \<and>
           status b = Pending"
proof -
  from assms obtain veh where
    veh: "findOne (\<lambda>v. vehicle_id v = req_vehicleId r) (vehicles st) = Some veh"
    by (auto simp: createBooking_def split: if_splits option.splits)
  from assms veh have valid: "bookingValidation (clock_request ev) r" and av: "availability veh"
    and ca: "checkAvailability (bookings st) (req_vehicleId r) (req_startDate r) (req_endDate r) None"
    by (auto simp: createBooking_def Let_def split: if_splits)
  define b0 where "b0 =
      \<lparr>booking_id = fresh_id ev, userId = user_id u,
       vehicleId = req_vehicleId r, startDate = req_startDate r, endDate = req_endDate r,
       totalPrice =
         Number_times (of_int (days_of (req_endDate r - req_startDate r))) (pricePerDay veh),
       status = Pending,
       pickupLocation = req_pickupLocation r,
       dropoffLocation = req_dropoffLocation r,
       specialRequests = req_specialRequests r,
       cancellationReason = None, adminNotes = None\<rparr>"
  have eq: "createBooking ev u r st =
      (case Booking_create (clock_save ev) b0 (bookings st) of
         Inl err \<Rightarrow> (Failure 500 ''Server error while creating booking'', st)
       | Inr bs' \<Rightarrow> (Success 201 b0, st\<lparr>bookings := bs'\<rparr>))"
    unfolding b0_def using veh valid av ca by (simp add: createBooking_def Let_def)
  from assms [unfolded eq] obtain bs' where
    bs': "Booking_create (clock_save ev) b0 (bookings st) = Inr bs'"
    and res: "c = 201" "b = b0" "st' = st\<lparr>bookings := bs'\<rparr>"
    by (cases "Booking_create (clock_save ev) b0 (bookings st)") simp_all
  from Booking_create_Inr [OF bs'] have "bs' = bookings st @ [b0]" .
  with res veh valid av ca show ?thesis
    by (simp add: b0_def)
qed

lemma days_of_div: "days_of d = - ((- d) div 86400000)"
proof -
  have "(of_int d :: rat) / (1000 * 3600 * 24) = of_int d / of_int 86400000" by simp
  then show ?thesis unfolding days_of_def by (simp only: ceiling_divide_eq_div)
qed

lemma create_3_nights:
  "createBooking env1 alice request_3_nights demo_store =
     (Success 201 booking_3_nights, demo_store\<lparr>bookings := [booking_3_nights]\<rparr>)"
  by (simp add: booking_defs demo_defs days_of_div)

lemma create_25_hours:
  "createBooking env1 alice request_25_hours demo_store =
     (Success 201 booking_25_hours, demo_store\<lparr>bookings := [booking_25_hours]\<rparr>)"
  by (simp add: booking_defs demo_defs days_of_div)

lemma create_tenth:
  "createBooking env1 alice request_3_nights tenth_store =
     (Success 201 booking_tenth, tenth_store\<lparr>bookings := [booking_tenth]\<rparr>)"
  by (simp add: booking_defs demo_defs days_of_div)

text \<open>
  Claim C6, as amended. Every booking that \<open>createBooking\<close> creates has as \<open>totalPrice\<close>
  the Number product of \<open>ceil((endDate - startDate) / 1 day)\<close> and the \<open>pricePerDay\<close> of
  the vehicle it resolved: the double nearest to the exact product, and the exact
  product itself whenever the price is a whole number and the product is below \<open>2^53\<close>.
  A booking of three nights at 100 per day costs 300, and a booking that spans 25 hours
  costs twice the price per day: the ceiling of 25/24 is 2.
\<close>

theorem createBooking_totalPrice:
  assumes "createBooking ev u r st = (Success c b, st')"
  shows "\<exists>veh. findOne (\<lambda>v. vehicle_id v = req_vehicleId r) (vehicles st) = Some veh \<and>
           startDate b = req_startDate r \<and> endDate b = req_endDate r \<and>
           (in_double_range
              (of_int \<lceil>(of_int (endDate b - startDate b) :: rat) / (1000 * 3600 * 24)\<rceil> *
               pricePerDay veh) \<longrightarrow>
            totalPrice b =
              round_double
                (of_int \<lceil>(of_int (endDate b - startDate b) :: rat) / (1000 * 3600 * 24)\<rceil> *
                 pricePerDay veh)) \<and>
           (\<forall>n. pricePerDay veh = of_int n \<and>
                \<bar>\<lceil>(of_int (endDate b - startDate b) :: rat) / (1000 * 3600 * 24)\<rceil> * n\<bar> < 2 ^ 53 \<longrightarrow>
              totalPrice b =
                of_int \<lceil>(of_int (endDate b - startDate b) :: rat) / (1000 * 3600 * 24)\<rceil> *
                pricePerDay veh) \<and>
           (pricePerDay veh = 100 \<and> endDate b - startDate b = 3 * (1000 * 3600 * 24) \<longrightarrow>
              totalPrice b = 300) \<and>
           (\<forall>n. pricePerDay veh = of_int n \<and> \<bar>n\<bar> < 2 ^ 52 \<and>
                endDate b - startDate b = 25 * (1000 * 3600) \<longrightarrow>
              totalPrice b = 2 * pricePerDay veh)"
proof -
  from createBooking_Success [OF assms] obtain veh where
    veh: "findOne (\<lambda>v. vehicle_id v = req_vehicleId r) (vehicles st) = Some veh"
    and dates: "startDate b = req_startDate r" "endDate b = req_endDate r"
    and price0: "totalPrice b =
      Number_times (of_int (days_of (req_endDate r - req_startDate r))) (pricePerDay veh)"
    by blast
  define d where "d = \<lceil>(of_int (endDate b - startDate b) :: rat) / (1000 * 3600 * 24)\<rceil>"
  have d: "days_of (endDate b - startDate b) = d" by (simp only: days_of_def d_def)
  have price: "totalPrice b = Number_times (of_int d) (pricePerDay veh)"
    using price0 dates d by simp
  have rounded: "in_double_range (of_int d * pricePerDay veh) \<longrightarrow>
      totalPrice b = round_double (of_int d * pricePerDay veh)"
    using price by (simp add: Number_times_def)
  have whole: "\<forall>n. pricePerDay veh = of_int n \<and> \<bar>d * n\<bar> < 2 ^ 53 \<longrightarrow>
      totalPrice b = of_int d * pricePerDay veh"
    using price by (auto simp: Number_times_of_int)
  have three: "days_of (3 * (1000 * 3600 * 24)) = 3" by (simp add: days_of_div)
  have hours: "days_of (25 * (1000 * 3600)) = 2" by (simp add: days_of_div)
  have c3: "pricePerDay veh = 100 \<and> endDate b - startDate b = 3 * (1000 * 3600 * 24) \<longrightarrow>
      totalPrice b = 300"
  proof
    assume h: "pricePerDay veh = 100 \<and> endDate b - startDate b = 3 * (1000 * 3600 * 24)"
    with d three have "d = 3" by simp
    with price h have "totalPrice b = Number_times 3 100" by simp
    then show "totalPrice b = 300" by (simp add: Number_times_numeral)
  qed
  have c25: "\<forall>n. pricePerDay veh = of_int n \<and> \<bar>n\<bar> < 2 ^ 52 \<and>
      endDate b - startDate b = 25 * (1000 * 3600) \<longrightarrow> totalPrice b = 2 * pricePerDay veh"
  proof (intro allI impI)
    fix n
    assume h: "pricePerDay veh = of_int n \<and> \<bar>n\<bar> < 2 ^ 52 \<and>
      endDate b - startDate b = 25 * (1000 * 3600)"
    with d hours have "d = 2" by simp
    moreover from h have "\<bar>n\<bar> < 2 ^ 52" by simp
    then have "\<bar>2 * n\<bar> < 2 ^ 53" by (simp add: abs_mult)
    ultimately show "totalPrice b = 2 * pricePerDay veh"
      using price h Number_times_of_int [of 2 n] by simp
  qed
  from veh dates rounded whole c3 c25 show ?thesis
    unfolding d_def by blast
qed

theorem createBooking_totalPrice_witness:
  "createBooking env1 alice request_3_nights demo_store =
     (Success 201 booking_3_nights, demo_store\<lparr>bookings := [booking_3_nights]\<rparr>) \<and>
   endDate booking_3_nights - startDate booking_3_nights = 3 * (1000 * 3600 * 24) \<and>
   pricePerDay demo_vehicle = 100 \<and>
   totalPrice booking_3_nights = 3 * pricePerDay demo_vehicle \<and>
   totalPrice booking_3_nights = 300 \<and>
   endDate booking_25_hours - startDate booking_25_hours = 25 * (1000 * 3600) \<and>
   totalPrice booking_25_hours = 2 * pricePerDay demo_vehicle"
  using createBooking_totalPrice [OF create_3_nights] createBooking_totalPrice [OF create_25_hours]
    create_3_nights
  by (simp add: findOne_def demo_defs)

theorem totalPrice_25_hours_counterexample:
  "createBooking env1 alice request_25_hours demo_store =
     (Success 201 booking_25_hours, demo_store\<lparr>bookings := [booking_25_hours]\<rparr>) \<and>
   endDate booking_25_hours - startDate booking_25_hours = 25 * (1000 * 3600) \<and>
   pricePerDay demo_vehicle = 100 \<and>
   totalPrice booking_25_hours = 200 \<and>
   totalPrice booking_25_hours \<noteq> 1 * pricePerDay demo_vehicle \<and>
   createBooking env1 alice request_3_nights tenth_store =
     (Success 201 booking_tenth, tenth_store\<lparr>bookings := [booking_tenth]\<rparr>) \<and>
   endDate booking_tenth - startDate booking_tenth = 3 * (1000 * 3600 * 24) \<and>
   pricePerDay tenth_vehicle = round_double (1 / 10) \<and>
   totalPrice booking_tenth \<noteq> 3 * pricePerDay tenth_vehicle"
  using create_25_hours create_tenth double_of_tenth by (simp add: demo_defs)

text \<open>
  Claim C8. \<open>createBooking\<close> answers 404 (NotFoundError) when the vehicle id does not
  resolve, 400 (ValidationError) when the vehicle's \<open>availability\<close> is false or when an
  approved or active booking of the vehicle overlaps the requested dates, and on success
  it answers 201 and has appended the new booking, whose status is \<open>pending\<close>. The
  route's validators come first: a body that fails them is answered 400 before the
  vehicle is looked up. The last conjunct gives the inputs on which the handler succeeds.
\<close>

theorem createBooking_outcomes:
  "(\<not> bookingValidation (clock_request ev) r \<longrightarrow>
      createBooking ev u r st = (Failure 400 ''Validation failed'', st)) \<and>
   (bookingValidation (clock_request ev) r \<and>
    findOne (\<lambda>v. vehicle_id v = req_vehicleId r) (vehicles st) = None \<longrightarrow>
      createBooking ev u r st = (Failure 404 ''Vehicle not found'', st)) \<and>
   (bookingValidation (clock_request ev) r \<and>
    findOne (\<lambda>v. vehicle_id v = req_vehicleId r) (vehicles st) = Some veh \<and>
    \<not> availability veh \<longrightarrow>
      createBooking ev u r st = (Failure 400 ''Vehicle is not available'', st)) \<and>
   (bookingValidation (clock_request ev) r \<and>
    findOne (\<lambda>v. vehicle_id v = req_vehicleId r) (vehicles st) = Some veh \<and>
    availability veh \<and>
    (\<exists>b \<in> set (bookings st). vehicleId b = req_vehicleId r \<and>
        (status b = Approved \<or> status b = Active) \<and>
        startDate b < req_endDate r \<and> endDate b > req_startDate r) \<longrightarrow>
      createBooking ev u r st =
        (Failure 400 ''Vehicle is not available for the selected dates'', st)) \<and>
   (createBooking ev u r st = (Success c b, st') \<longrightarrow>
      c = 201 \<and> status b = Pending \<and> st' = st\<lparr>bookings := bookings st @ [b]\<rparr>) \<and>
   (bookingValidation (clock_request ev) r \<and>
    findOne (\<lambda>v. vehicle_id v = req_vehicleId r) (vehicles st) = Some veh \<and>
    availability veh \<and>
    \<not> (\<exists>b \<in> set (bookings st). vehicleId b = req_vehicleId r \<and>
        (status b = Approved \<or> status b = Active) \<and>
        startDate b < req_endDate r \<and> endDate b > req_startDate r) \<and>
    clock_save ev \<le> req_startDate r \<and> 0 \<le> pricePerDay veh \<and>
    fresh_id ev \<notin> set (map booking_id (bookings st)) \<longrightarrow>
      (\<exists>b. createBooking ev u r st = (Success 201 b, st\<lparr>bookings := bookings st @ [b]\<rparr>) \<and>
           status b = Pending))"
proof -
  have invalid: "\<not> bookingValidation (clock_request ev) r \<longrightarrow>
      createBooking ev u r st = (Failure 400 ''Validation failed'', st)"
    by (simp add: createBooking_def)
  have missing: "bookingValidation (clock_request ev) r \<and>
    findOne (\<lambda>v. vehicle_id v = req_vehicleId r) (vehicles st) = None \<longrightarrow>
      createBooking ev u r st = (Failure 404 ''Vehicle not found'', st)"
    by (simp add: createBooking_def)
  have unavailable: "bookingValidation (clock_request ev) r \<and>
    findOne (\<lambda>v. vehicle_id v = req_vehicleId r) (vehicles st) = Some veh \<and>
    \<not> availability veh \<longrightarrow>
      createBooking ev u r st = (Failure 400 ''Vehicle is not available'', st)"
    by (simp add: createBooking_def)
  have conflict: "bookingValidation (clock_request ev) r \<and>
    findOne (\<lambda>v. vehicle_id v = req_vehicleId r) (vehicles st) = Some veh \<and>
    availability veh \<and>
    (\<exists>b \<in> set (bookings st). vehicleId b = req_vehicleId r \<and>
        (status b = Approved \<or> status b = Active) \<and>
        startDate b < req_endDate r \<and> endDate b > req_startDate r) \<longrightarrow>
      createBooking ev u r st =
        (Failure 400 ''Vehicle is not available for the selected dates'', st)"
  proof
    assume h: "bookingValidation (clock_request ev) r \<and>
      findOne (\<lambda>v. vehicle_id v = req_vehicleId r) (vehicles st) = Some veh \<and>
      availability veh \<and>
      (\<exists>b \<in> set (bookings st). vehicleId b = req_vehicleId r \<and>
        (status b = Approved \<or> status b = Active) \<and>
        startDate b < req_endDate r \<and> endDate b > req_startDate r)"
    then have "\<not> checkAvailability (bookings st) (req_vehicleId r) (req_startDate r) (req_endDate r) None"
      by (auto simp: checkAvailability_no_conflict conflict_query_def)
    with h show "createBooking ev u r st =
        (Failure 400 ''Vehicle is not available for the selected dates'', st)"
      by (simp add: createBooking_def Let_def)
  qed
  have success: "createBooking ev u r st = (Success c b, st') \<longrightarrow>
      c = 201 \<and> status b = Pending \<and> st' = st\<lparr>bookings := bookings st @ [b]\<rparr>"
    using createBooking_Success [of ev u r st c b st'] by blast
  have creates: "bookingValidation (clock_request ev) r \<and>
    findOne (\<lambda>v. vehicle_id v = req_vehicleId r) (vehicles st) = Some veh \<and>
    availability veh \<and>
    \<not> (\<exists>b \<in> set (bookings st). vehicleId b = req_vehicleId r \<and>
        (status b = Approved \<or> status b = Active) \<and>
        startDate b < req_endDate r \<and> endDate b > req_startDate r) \<and>
    clock_save ev \<le> req_startDate r \<and> 0 \<le> pricePerDay veh \<and>
    fresh_id ev \<notin> set (map booking_id (bookings st)) \<longrightarrow>
      (\<exists>b. createBooking ev u r st = (Success 201 b, st\<lparr>bookings := bookings st @ [b]\<rparr>) \<and>
           status b = Pending)"
  proof
    assume h: "bookingValidation (clock_request ev) r \<and>
      findOne (\<lambda>v. vehicle_id v = req_vehicleId r) (vehicles st) = Some veh \<and>
      availability veh \<and>
      \<not> (\<exists>b \<in> set (bookings st). vehicleId b = req_vehicleId r \<and>
        (status b = Approved \<or> status b = Active) \<and>
        startDate b < req_endDate r \<and> endDate b > req_startDate r) \<and>
      clock_save ev \<le> req_startDate r \<and> 0 \<le> pricePerDay veh \<and>
      fresh_id ev \<notin> set (map booking_id (bookings st))"
    then have valid: "bookingValidation (clock_request ev) r" by simp
    from h have avail: "checkAvailability (bookings st) (req_vehicleId r) (req_startDate r) (req_endDate r) None"
      by (auto simp: checkAvailability_no_conflict conflict_query_def)
    from valid have "0 < req_endDate r - req_startDate r"
      by (simp add: bookingValidation_def)
    then have "0 < days_of (req_endDate r - req_startDate r)" by (rule days_of_pos)
    with h have price:
      "0 \<le> Number_times (rat_of_int (days_of (req_endDate r - req_startDate r))) (pricePerDay veh)"
      by (simp add: Number_times_nonneg)
    from h valid avail price checkAvailability_exclude [OF avail, of "Some (fresh_id ev)"]
    show "\<exists>b. createBooking ev u r st = (Success 201 b, st\<lparr>bookings := bookings st @ [b]\<rparr>) \<and>
           status b = Pending"
      by (simp add: createBooking_def Let_def Booking_create_def booking_schema_valid_def
          booking_pre_save_def bookingValidation_def maxlength_def)
  qed
  from invalid missing unavailable conflict success creates show ?thesis by blast
qed

theorem createBooking_outcomes_witness:
  "createBooking env1 alice (request_3_nights\<lparr>req_startDate := 500\<rparr>) demo_store =
     (Failure 400 ''Validation failed'', demo_store) \<and>
   createBooking env1 alice (request_3_nights\<lparr>req_vehicleId := 7\<rparr>) demo_store =
     (Failure 404 ''Vehicle not found'', demo_store) \<and>
   createBooking env1 alice request_3_nights unavailable_store =
     (Failure 400 ''Vehicle is not available'', unavailable_store) \<and>
   createBooking env2 bob request_25_hours approved_store =
     (Failure 400 ''Vehicle is not available for the selected dates'', approved_store) \<and>
   (\<exists>b. createBooking env1 alice request_3_nights demo_store =
           (Success 201 b, demo_store\<lparr>bookings := bookings demo_store @ [b]\<rparr>) \<and>
         status b = Pending)"
proof -
  have a: "createBooking env1 alice (request_3_nights\<lparr>req_startDate := 500\<rparr>) demo_store =
     (Failure 400 ''Validation failed'', demo_store)"
    using createBooking_outcomes [of env1 "request_3_nights\<lparr>req_startDate := 500\<rparr>" alice demo_store]
    by (simp add: bookingValidation_def demo_defs)
  have b: "createBooking env1 alice (request_3_nights\<lparr>req_vehicleId := 7\<rparr>) demo_store =
     (Failure 404 ''Vehicle not found'', demo_store)"
    using createBooking_outcomes [of env1 "request_3_nights\<lparr>req_vehicleId := 7\<rparr>" alice demo_store]
    by (simp add: bookingValidation_def maxlength_def findOne_def demo_defs)
  have c: "createBooking env1 alice request_3_nights unavailable_store =
     (Failure 400 ''Vehicle is not available'', unavailable_store)"
    using createBooking_outcomes [of env1 request_3_nights alice unavailable_store
        "demo_vehicle\<lparr>availability := False\<rparr>"]
    by (simp add: bookingValidation_def maxlength_def findOne_def demo_defs)
  have d: "createBooking env2 bob request_25_hours approved_store =
     (Failure 400 ''Vehicle is not available for the selected dates'', approved_store)"
    using createBooking_outcomes [of env2 request_25_hours bob approved_store demo_vehicle]
    by (simp add: bookingValidation_def maxlength_def findOne_def demo_defs)
  have e: "\<exists>b. createBooking env1 alice request_3_nights demo_store =
           (Success 201 b, demo_store\<lparr>bookings := bookings demo_store @ [b]\<rparr>) \<and>
         status b = Pending"
    using createBooking_outcomes [of env1 request_3_nights alice demo_store demo_vehicle]
    by (simp add: bookingValidation_def maxlength_def findOne_def demo_defs)
  from a b c d e show ?thesis by blast
qed

section \<open>The vehicle collection is not written by booking operations\<close>

text \<open>
  Claim C9. None of \<open>createBooking\<close>, \<open>updateBookingStatus\<close> and \<open>cancelBooking\<close>
  changes the vehicle collection, whatever their outcome: \<open>availability\<close> and every
  other field of every vehicle stay as they were.
\<close>

theorem booking_operations_frame:
  "vehicles (snd (createBooking ev u r st)) = vehicles st \<and>
   vehicles (snd (updateBookingStatus i s an st)) = vehicles st \<and>
   vehicles (snd (cancelBooking u i reason st)) = vehicles st"
proof -
  have "vehicles (snd (createBooking ev u r st)) = vehicles st"
    by (simp add: createBooking_def Let_def split: option.splits sum.splits)
  moreover have "vehicles (snd (updateBookingStatus i s an st)) = vehicles st"
    by (simp add: updateBookingStatus_def Let_def split: option.splits)
  moreover have "vehicles (snd (cancelBooking u i reason st)) = vehicles st"
    by (simp add: cancelBooking_def Let_def split: option.splits)
  ultimately show ?thesis by simp
qed

theorem booking_operations_frame_witness:
  "vehicles (snd (createBooking env1 alice request_3_nights demo_store)) = [demo_vehicle] \<and>
   vehicles (snd (updateBookingStatus 1 ''approved'' None approved_store)) = [demo_vehicle] \<and>
   vehicles (snd (cancelBooking alice 1 None approved_store)) = [demo_vehicle] \<and>
   availability demo_vehicle"
  using booking_operations_frame [of env1 alice request_3_nights demo_store]
    booking_operations_frame [where st = approved_store and i = 1 and s = "''approved''"
      and an = None and u = alice and reason = None]
  by (simp add: demo_defs)

section \<open>Cancelling a booking and updating its status\<close>

text \<open>
  Claim C5. For an existing booking and a request body that passes the route's rule on
  \<open>cancellationReason\<close> (at most 200 characters), \<open>cancelBooking\<close> succeeds exactly
  when the booking's status is \<open>pending\<close> or \<open>approved\<close> and the caller is its owner or
  an administrator. On success the stored booking has status \<open>cancelled\<close>. For an
  authorised caller and any other status the answer is 400 and the store is unchanged;
  for any other caller the answer is 403 and the store is unchanged.
\<close>

theorem cancelBooking_outcomes:
  assumes found: "findOne (\<lambda>b. booking_id b = i) (bookings st) = Some b"
      and reason: "maxlength 200 reason"
  shows "((\<exists>b' st'. cancelBooking u i reason st = (Success 200 b', st')) \<longleftrightarrow>
            (status b = Pending \<or> status b = Approved) \<and>
            (role u = RoleAdmin \<or> userId b = user_id u)) \<and>
         ((status b = Pending \<or> status b = Approved) \<and>
          (role u = RoleAdmin \<or> userId b = user_id u) \<longrightarrow>
            (\<exists>b'. fst (cancelBooking u i reason st) = Success 200 b' \<and>
                   status b' = Cancelled \<and>
                   b' = (case reason of None \<Rightarrow> b\<lparr>status := Cancelled\<rparr>
                         | Some t \<Rightarrow> b\<lparr>status := Cancelled, cancellationReason := Some t\<rparr>) \<and>
                   findOne (\<lambda>d. booking_id d = i) (bookings (snd (cancelBooking u i reason st))) =
                     Some b')) \<and>
         (\<not> (status b = Pending \<or> status b = Approved) \<and>
          (role u = RoleAdmin \<or> userId b = user_id u) \<longrightarrow>
            cancelBooking u i reason st =
              (Failure 400 ''Booking cannot be cancelled in current status'', st)) \<and>
         (\<not> (role u = RoleAdmin \<or> userId b = user_id u) \<longrightarrow>
            cancelBooking u i reason st =
              (Failure 403 ''Not authorized to cancel this booking'', st))"
proof -
  from found have idb: "booking_id b = i" by (auto dest: findOne_Some_set)
  have denied: "\<not> (role u = RoleAdmin \<or> userId b = user_id u) \<longrightarrow>
      cancelBooking u i reason st = (Failure 403 ''Not authorized to cancel this booking'', st)"
    using found by (simp add: cancelBooking_def)
  have wrong: "\<not> (status b = Pending \<or> status b = Approved) \<and>
      (role u = RoleAdmin \<or> userId b = user_id u) \<longrightarrow>
      cancelBooking u i reason st =
        (Failure 400 ''Booking cannot be cancelled in current status'', st)"
    using found by (auto simp: cancelBooking_def)
  have cancelled: "(status b = Pending \<or> status b = Approved) \<and>
      (role u = RoleAdmin \<or> userId b = user_id u) \<longrightarrow>
      (\<exists>b'. fst (cancelBooking u i reason st) = Success 200 b' \<and>
             status b' = Cancelled \<and>
             b' = (case reason of None \<Rightarrow> b\<lparr>status := Cancelled\<rparr>
                   | Some t \<Rightarrow> b\<lparr>status := Cancelled, cancellationReason := Some t\<rparr>) \<and>
             findOne (\<lambda>d. booking_id d = i) (bookings (snd (cancelBooking u i reason st))) =
               Some b')"
    using found reason idb
    by (cases reason) (auto simp: cancelBooking_def Let_def findOne_findOneAndUpdate)
  have iff: "(\<exists>b' st'. cancelBooking u i reason st = (Success 200 b', st')) \<longleftrightarrow>
      (status b = Pending \<or> status b = Approved) \<and>
      (role u = RoleAdmin \<or> userId b = user_id u)"
    using found reason
    by (auto simp: cancelBooking_def Let_def)
  from iff cancelled wrong denied show ?thesis by blast
qed

theorem cancelBooking_outcomes_witness:
  "fst (cancelBooking alice 1 None approved_store) =
     Success 200 (booking_3_nights\<lparr>status := Cancelled\<rparr>) \<and>
   findOne (\<lambda>d. booking_id d = 1) (bookings (snd (cancelBooking alice 1 None approved_store))) =
     Some (booking_3_nights\<lparr>status := Cancelled\<rparr>) \<and>
   cancelBooking alice 1 None completed_store =
     (Failure 400 ''Booking cannot be cancelled in current status'', completed_store) \<and>
   cancelBooking bob 1 None approved_store =
     (Failure 403 ''Not authorized to cancel this booking'', approved_store) \<and>
   fst (cancelBooking admin_user 1 (Some ''overbooked'') approved_store) =
     Success 200 (booking_3_nights\<lparr>status := Cancelled, cancellationReason := Some ''overbooked''\<rparr>)"
proof -
  have fa: "findOne (\<lambda>b. booking_id b = 1) (bookings approved_store) =
      Some (booking_3_nights\<lparr>status := Approved\<rparr>)"
    by (simp add: findOne_def demo_defs)
  have fc: "findOne (\<lambda>b. booking_id b = 1) (bookings completed_store) =
      Some (booking_3_nights\<lparr>status := Completed\<rparr>)"
    by (simp add: findOne_def demo_defs)
  have ok: "maxlength 200 None" by (simp add: maxlength_def)
  have ok': "maxlength 200 (Some ''overbooked'')" by (simp add: maxlength_def)
  from cancelBooking_outcomes [OF fa ok, of alice] cancelBooking_outcomes [OF fc ok, of alice]
    cancelBooking_outcomes [OF fa ok, of bob] cancelBooking_outcomes [OF fa ok', of admin_user]
  show ?thesis by (simp add: demo_defs)
qed

text \<open>
  Claim C4. For an existing booking, whatever its current status, and for each of the six
  values of the status enum, \<open>updateBookingStatus\<close> answers 200 and the stored booking
  has that value as its status: no transition table is consulted. The body's
  \<open>adminNotes\<close> is taken to pass the route's rule (at most 500 characters); longer notes
  make the update's validators throw.
\<close>

theorem updateBookingStatus_any_target:
  assumes found: "findOne (\<lambda>b. booking_id b = i) (bookings st) = Some b"
      and notes_ok: "maxlength 500 notes"
  shows "\<exists>b'. fst (updateBookingStatus i (string_of_status target) notes st) = Success 200 b' \<and>
           status b' = target \<and>
           findOne (\<lambda>d. booking_id d = i)
             (bookings (snd (updateBookingStatus i (string_of_status target) notes st))) = Some b'"
proof -
  from found have idb: "booking_id b = i" by (auto dest: findOne_Some_set)
  show ?thesis
    using found notes_ok idb
    by (auto simp: updateBookingStatus_def Let_def findOne_findOneAndUpdate split: option.splits)
qed

theorem updateBookingStatus_any_target_witness:
  "(\<exists>b'. fst (updateBookingStatus 1 ''pending'' None completed_store) = Success 200 b' \<and>
         status b' = Pending \<and>
         findOne (\<lambda>d. booking_id d = 1)
           (bookings (snd (updateBookingStatus 1 ''pending'' None completed_store))) = Some b') \<and>
   status (booking_3_nights\<lparr>status := Completed\<rparr>) = Completed"
proof -
  have fc: "findOne (\<lambda>b. booking_id b = 1) (bookings completed_store) =
      Some (booking_3_nights\<lparr>status := Completed\<rparr>)"
    by (simp add: findOne_def demo_defs)
  have ok: "maxlength 500 None" by (simp add: maxlength_def)
  from updateBookingStatus_any_target [OF fc ok, of Pending]
  show ?thesis by simp
qed

section \<open>The no-double-booking invariant\<close>

lemma no_double_booking_iff:
  "no_double_booking bs \<longleftrightarrow> (\<forall>b1 \<in> set bs. \<forall>b2 \<in> set bs. \<not> double_booked b1 b2)"
  by (simp add: no_double_booking_def list_all_iff)

lemma run_created_1_eq: "run_created_1 = demo_store\<lparr>bookings := [booking_3_nights]\<rparr>"
  by (simp add: run_created_1_def create_3_nights)

lemma run_created_2_eq:
  "createBooking env2 bob request_overlap run_created_1 =
     (Success 201 booking_overlap, demo_store\<lparr>bookings := [booking_3_nights, booking_overlap]\<rparr>)"
  by (simp add: run_created_1_eq booking_defs demo_defs days_of_div)

lemma run_approved_1_eq:
  "updateBookingStatus 1 ''approved'' None (demo_store\<lparr>bookings := [booking_3_nights, booking_overlap]\<rparr>) =
     (Success 200 (booking_3_nights\<lparr>status := Approved\<rparr>),
      demo_store\<lparr>bookings := [booking_3_nights\<lparr>status := Approved\<rparr>, booking_overlap]\<rparr>)"
  by (simp add: booking_defs demo_defs)

lemma run_approved_2_eq:
  "updateBookingStatus 2 ''approved'' None
     (demo_store\<lparr>bookings := [booking_3_nights\<lparr>status := Approved\<rparr>, booking_overlap]\<rparr>) =
     (Success 200 (booking_overlap\<lparr>status := Approved\<rparr>),
      demo_store\<lparr>bookings := [booking_3_nights\<lparr>status := Approved\<rparr>,
                                 booking_overlap\<lparr>status := Approved\<rparr>]\<rparr>)"
  by (simp add: booking_defs demo_defs)


text \<open>
  Claim C1. No two approved or active bookings of one vehicle overlap, in every
  reachable state. The handlers do not keep this: \<open>createBooking\<close> checks availability
  against approved and active bookings only and stores the new booking as \<open>pending\<close>,
  and \<open>updateBookingStatus\<close> sets \<open>approved\<close> without any availability check
  (\<open>findByIdAndUpdate\<close> runs no \<open>pre('save')\<close> hook). The run below starts from a
  store without bookings, every request in it succeeds, and it ends with two approved
  bookings of vehicle 1 that overlap.
\<close>

theorem double_booking_reachable:
  "no_double_booking (bookings demo_store) \<and>
   http_status (fst (createBooking env1 alice request_3_nights demo_store)) = 201 \<and>
   http_status (fst (createBooking env2 bob request_overlap run_created_1)) = 201 \<and>
   http_status (fst (updateBookingStatus 1 ''approved'' None run_created_2)) = 200 \<and>
   http_status (fst (updateBookingStatus 2 ''approved'' None run_approved_1)) = 200 \<and>
   bookings run_approved_2 =
     [booking_3_nights\<lparr>status := Approved\<rparr>, booking_overlap\<lparr>status := Approved\<rparr>] \<and>
   double_booked (booking_3_nights\<lparr>status := Approved\<rparr>) (booking_overlap\<lparr>status := Approved\<rparr>) \<and>
   \<not> no_double_booking (bookings run_approved_2)"
proof -
  have s0: "no_double_booking (bookings demo_store)"
    by (simp add: no_double_booking_def demo_defs)
  have s2: "run_created_2 = demo_store\<lparr>bookings := [booking_3_nights, booking_overlap]\<rparr>"
    by (simp add: run_created_2_def run_created_2_eq)
  have s3: "run_approved_1 =
      demo_store\<lparr>bookings := [booking_3_nights\<lparr>status := Approved\<rparr>, booking_overlap]\<rparr>"
    by (simp only: run_approved_1_def s2 run_approved_1_eq snd_conv)
  have s4: "run_approved_2 =
      demo_store\<lparr>bookings := [booking_3_nights\<lparr>status := Approved\<rparr>,
                                 booking_overlap\<lparr>status := Approved\<rparr>]\<rparr>"
    by (simp only: run_approved_2_def s3 run_approved_2_eq snd_conv)
  have db: "double_booked (booking_3_nights\<lparr>status := Approved\<rparr>)
      (booking_overlap\<lparr>status := Approved\<rparr>)"
    by (simp add: double_booked_def blocking_def overlap_def demo_defs)
  have bad: "\<not> no_double_booking (bookings run_approved_2)"
    using db by (simp add: s4 no_double_booking_def)
  have c1: "http_status (fst (createBooking env1 alice request_3_nights demo_store)) = 201"
    by (simp add: create_3_nights)
  have c2: "http_status (fst (createBooking env2 bob request_overlap run_created_1)) = 201"
    by (simp add: run_created_2_eq)
  have c3: "http_status (fst (updateBookingStatus 1 ''approved'' None run_created_2)) = 200"
    by (simp only: s2 run_approved_1_eq fst_conv http_status.simps)
  have c4: "http_status (fst (updateBookingStatus 2 ''approved'' None run_approved_1)) = 200"
    by (simp only: s3 run_approved_2_eq fst_conv http_status.simps)
  have bs: "bookings run_approved_2 =
     [booking_3_nights\<lparr>status := Approved\<rparr>, booking_overlap\<lparr>status := Approved\<rparr>]"
    by (simp add: s4)
  from s0 c1 c2 c3 c4 bs db bad show ?thesis by blast
qed


text \<open>
  What does hold: \<open>createBooking\<close> and \<open>cancelBooking\<close> keep the invariant, and so does
  \<open>updateBookingStatus\<close> towards any status other than \<open>approved\<close> and \<open>active\<close>.
\<close>

lemma set_findOneAndUpdate:
  "set (findOneAndUpdate q f ds) \<subseteq> set ds \<union> f ` {d \<in> set ds. q d}"
  by (induction ds) auto

lemma createBooking_preserves_no_double_booking:
  assumes "no_double_booking (bookings st)"
  shows "no_double_booking (bookings (snd (createBooking ev u r st)))"
proof (cases "createBooking ev u r st")
  case (Pair resp st')
  show ?thesis
  proof (cases resp)
    case (Success c b)
    from createBooking_Success [OF Pair [unfolded Success]]
    have st': "st' = st\<lparr>bookings := bookings st @ [b]\<rparr>" and pending: "status b = Pending"
      by blast+
    from pending have "\<not> blocking b" by (simp add: blocking_def)
    with assms show ?thesis
      by (auto simp: Pair st' no_double_booking_iff double_booked_def)
  next
    case (Failure c m)
    have "st' = st"
      using Pair [unfolded Failure]
      by (auto simp: createBooking_def Let_def split: if_splits option.splits sum.splits)
    with assms Pair show ?thesis by simp
  qed
qed

lemma update_to_non_blocking_preserves:
  assumes inv: "no_double_booking bs"
      and nb: "\<And>d. \<not> blocking (f d)"
  shows "no_double_booking (findOneAndUpdate q f bs)"
proof -
  have "\<And>b. b \<in> set (findOneAndUpdate q f bs) \<Longrightarrow> b \<in> set bs \<or> \<not> blocking b"
    using set_findOneAndUpdate [of q f bs] nb by auto
  with inv show ?thesis
    unfolding no_double_booking_iff double_booked_def by blast
qed

lemma cancelBooking_preserves_no_double_booking:
  assumes "no_double_booking (bookings st)"
  shows "no_double_booking (bookings (snd (cancelBooking u i reason st)))"
  using assms
  by (auto simp: cancelBooking_def Let_def blocking_def
      split: option.splits intro!: update_to_non_blocking_preserves)

lemma updateBookingStatus_non_blocking_preserves:
  assumes "no_double_booking (bookings st)"
      and "status_of_string s \<noteq> Some Approved" "status_of_string s \<noteq> Some Active"
  shows "no_double_booking (bookings (snd (updateBookingStatus i s an st)))"
proof (cases "status_of_string s")
  case None
  with assms show ?thesis by (simp add: updateBookingStatus_def)
next
  case (Some target)
  with assms have nb: "status d = target \<Longrightarrow> \<not> blocking d" for d :: booking
    by (cases target) (simp_all add: blocking_def)
  have nb1: "\<not> blocking (d\<lparr>status := target\<rparr>)" for d :: booking
    by (rule nb) simp
  have nb2: "\<not> blocking (d\<lparr>status := target, adminNotes := x\<rparr>)" for x and d :: booking
    by (rule nb) simp
  show ?thesis
    using assms(1) Some
    by (auto simp: updateBookingStatus_def Let_def nb1 nb2
        split: option.splits if_splits intro!: update_to_non_blocking_preserves)
qed

section \<open>Reviews and the rating rollup\<close>

lemmas review_defs =
  createReview_def reviewValidation_def maxlength_def findOne_def Review_create_def
  review_schema_valid_def review_pre_save_def calcAverageRating_def
  updateReview_def updateReviewValidation_def deleteReview_def Let_def

lemmas rated_defs =
  completed_booking_def rated_store_def review_request_of_def review_of_def rating_of_def

lemma Math_round_of_int: "Math_round (of_int n) = n"
  unfolding Math_round_def by (rule floor_unique) simp_all

lemma Math_round_numeral [simp]: "Math_round (numeral k) = numeral k"
  using Math_round_of_int [of "numeral k"] by simp

lemma reviewed_1_eq:
  "createReview env1 alice (review_request_of 1 5) rated_store =
     (Success 201 (review_of 1 10 5),
      rated_store\<lparr>vehicles := [demo_vehicle\<lparr>averageRating := 5, totalReviews := 1\<rparr>],
                   reviews := [review_of 1 10 5]\<rparr>)"
  by (simp add: review_defs rated_defs demo_defs)

lemma reviewed_2_eq:
  "createReview env2 bob (review_request_of 2 4)
     (rated_store\<lparr>vehicles := [demo_vehicle\<lparr>averageRating := 5, totalReviews := 1\<rparr>],
                  reviews := [review_of 1 10 5]\<rparr>) =
     (Success 201 (review_of 2 11 4),
      rated_store\<lparr>vehicles := [demo_vehicle\<lparr>averageRating := 9 / 2, totalReviews := 2\<rparr>],
                   reviews := [review_of 1 10 5, review_of 2 11 4]\<rparr>)"
  by (simp add: review_defs rated_defs demo_defs)

lemma reviewed_3_eq:
  "createReview env3 carol (review_request_of 3 3)
     (rated_store\<lparr>vehicles := [demo_vehicle\<lparr>averageRating := 9 / 2, totalReviews := 2\<rparr>],
                  reviews := [review_of 1 10 5, review_of 2 11 4]\<rparr>) =
     (Success 201 (review_of 3 12 3),
      rated_store\<lparr>vehicles := [demo_vehicle\<lparr>averageRating := 4, totalReviews := 3\<rparr>],
                   reviews := [review_of 1 10 5, review_of 2 11 4, review_of 3 12 3]\<rparr>)"
  by (simp add: review_defs rated_defs demo_defs)

lemma reviewed_3_store:
  "reviewed_3 =
     rated_store\<lparr>vehicles := [demo_vehicle\<lparr>averageRating := 4, totalReviews := 3\<rparr>],
                  reviews := [review_of 1 10 5, review_of 2 11 4, review_of 3 12 3]\<rparr>"
  by (simp only: reviewed_3_def reviewed_2_def reviewed_1_def reviewed_1_eq reviewed_2_eq
      reviewed_3_eq snd_conv)

lemma delete_3_eq:
  "deleteReview carol 3 reviewed_3 =
     (Success 200 ''Review deleted successfully'',
      rated_store\<lparr>vehicles := [demo_vehicle\<lparr>averageRating := 4, totalReviews := 3\<rparr>],
                   reviews := [review_of 1 10 5, review_of 2 11 4]\<rparr>)"
  by (simp add: reviewed_3_store review_defs rated_defs demo_defs)

lemma update_1_eq:
  "updateReview alice 1 (Some 1) None reviewed_3 =
     (Success 200 (review_of 1 10 1),
      rated_store\<lparr>vehicles := [demo_vehicle\<lparr>averageRating := 4, totalReviews := 3\<rparr>],
                   reviews := [review_of 1 10 1, review_of 2 11 4, review_of 3 12 3]\<rparr>)"
  by (simp add: reviewed_3_store review_defs rated_defs demo_defs)

lemma calcAverageRating_frame:
  "bookings (calcAverageRating v st) = bookings st \<and> reviews (calcAverageRating v st) = reviews st"
  by (simp add: calcAverageRating_def Let_def)

lemma Review_create_Inr:
  "Review_create rv st = Inr (created, st') \<Longrightarrow>
     reviews st' = reviews st @ [created] \<and> bookings st' = bookings st \<and>
     created = rv\<lparr>comment := map_option trim (comment rv)\<rparr> \<and>
     review_pre_save (bookings st) created = None"
  by (auto simp: Review_create_def Let_def calcAverageRating_frame
      split: if_splits option.splits)

lemma calcAverageRating_rollup:
  assumes "findOne (\<lambda>x. vehicle_id x = v) (vehicles st) = Some x"
  shows "\<exists>x'. findOne (\<lambda>x. vehicle_id x = v) (vehicles (calcAverageRating v st)) = Some x' \<and>
           totalReviews x' = length (filter (\<lambda>r. review_vehicleId r = v) (reviews st)) \<and>
           averageRating x' =
             (if filter (\<lambda>r. review_vehicleId r = v) (reviews st) = [] then 0
              else of_int (Math_round
                     (of_int (sum_list (map rating (filter (\<lambda>r. review_vehicleId r = v) (reviews st))))
                       / of_nat (length (filter (\<lambda>r. review_vehicleId r = v) (reviews st))) * 10)) / 10)"
proof -
  from assms have "vehicle_id x = v" by (auto dest: findOne_Some_set)
  with assms show ?thesis
    by (simp add: calcAverageRating_def Let_def findOne_findOneAndUpdate)
qed


text \<open>
  Claim C3. After a review is created, updated or deleted, the vehicle's
  \<open>averageRating\<close> is the mean of the remaining ratings rounded to one decimal and
  \<open>totalReviews\<close> is their number. \<open>Review.create\<close> does recompute both (lemma
  \<open>calcAverageRating_rollup\<close> is what the recomputation stores), and after the ratings
  5, 4 and 3 the vehicle holds 4 and 3. The delete and update handlers do not:
  \<open>findByIdAndDelete\<close> and \<open>findByIdAndUpdate\<close> run neither the \<open>post('remove')\<close> nor
  the \<open>post('save')\<close> hook. After the review rated 3 is deleted the vehicle still holds
  4 and 3, where a recomputation would store 9/2 and 2; after the first review is
  changed to rating 1 it still holds 4 and 3, where a recomputation would store 27/10.
\<close>

theorem rating_stale_after_delete:
  "map rating (reviews reviewed_3) = [5, 4, 3] \<and>
   rating_of reviewed_3 = [(4, 3)] \<and>
   fst (deleteReview carol 3 reviewed_3) = Success 200 ''Review deleted successfully'' \<and>
   map rating (reviews (snd (deleteReview carol 3 reviewed_3))) = [5, 4] \<and>
   rating_of (snd (deleteReview carol 3 reviewed_3)) = [(4, 3)] \<and>
   rating_of (calcAverageRating 1 (snd (deleteReview carol 3 reviewed_3))) = [(9 / 2, 2)] \<and>
   http_status (fst (updateReview alice 1 (Some 1) None reviewed_3)) = 200 \<and>
   map rating (reviews (snd (updateReview alice 1 (Some 1) None reviewed_3))) = [1, 4, 3] \<and>
   rating_of (snd (updateReview alice 1 (Some 1) None reviewed_3)) = [(4, 3)] \<and>
   rating_of (calcAverageRating 1 (snd (updateReview alice 1 (Some 1) None reviewed_3))) =
     [(27 / 10, 3)]"
proof -
  have a: "map rating (reviews reviewed_3) = [5, 4, 3]" "rating_of reviewed_3 = [(4, 3)]"
    by (simp_all add: reviewed_3_store rated_defs demo_defs)
  have b: "fst (deleteReview carol 3 reviewed_3) = Success 200 ''Review deleted successfully''"
    "map rating (reviews (snd (deleteReview carol 3 reviewed_3))) = [5, 4]"
    "rating_of (snd (deleteReview carol 3 reviewed_3)) = [(4, 3)]"
    unfolding delete_3_eq by (simp_all add: rated_defs demo_defs)
  have c: "rating_of (calcAverageRating 1 (snd (deleteReview carol 3 reviewed_3))) = [(9 / 2, 2)]"
    unfolding delete_3_eq by (simp add: calcAverageRating_def Let_def rated_defs demo_defs)
  have d: "http_status (fst (updateReview alice 1 (Some 1) None reviewed_3)) = 200"
    "map rating (reviews (snd (updateReview alice 1 (Some 1) None reviewed_3))) = [1, 4, 3]"
    "rating_of (snd (updateReview alice 1 (Some 1) None reviewed_3)) = [(4, 3)]"
    unfolding update_1_eq by (simp_all add: rated_defs demo_defs)
  have fl: "\<lfloor>(163 :: rat) / 6\<rfloor> = 27"
    using floor_divide_of_int_eq [of 163 6, where ?'a = rat] by simp
  have e: "rating_of (calcAverageRating 1 (snd (updateReview alice 1 (Some 1) None reviewed_3))) =
     [(27 / 10, 3)]"
    unfolding update_1_eq
    by (simp add: calcAverageRating_def Let_def rated_defs demo_defs Math_round_def fl)
  from a b c d e show ?thesis by simp
qed


lemma length_trim_le: "length (trim s) \<le> length s"
  unfolding trim_def
  by (metis length_dropWhile_le length_rev order_trans)

lemma maxlength_trim: "maxlength n c \<Longrightarrow> maxlength n (map_option trim c)"
  using length_trim_le by (cases c) (auto simp: maxlength_def intro: order_trans)

lemma trim_padded: "trim ''  good  '' = ''good''"
  by (simp add: trim_def is_space_def)

lemma length_long_comment: "length long_comment = 501"
  by (simp add: long_comment_def)

lemma trim_good: "trim ''good'' = ''good''"
  by (simp add: trim_def is_space_def)

lemma dropWhile_replicate_keep: "\<not> P x \<Longrightarrow> dropWhile P (replicate n x) = replicate n x"
  by (cases n) simp_all

lemma trim_long_comment: "trim long_comment = replicate 499 (CHR ''a'')"
proof -
  have a: "\<not> is_space (CHR ''a'')" by (simp add: is_space_def)
  have s: "is_space (CHR '' '')" by (simp add: is_space_def)
  have lead_eq: "dropWhile is_space long_comment = long_comment"
    unfolding long_comment_def using a
    by (cases "499 :: nat") simp_all
  have rev_eq: "rev long_comment = CHR '' '' # CHR '' '' # replicate 499 (CHR ''a'')"
    by (simp add: long_comment_def)
  have "dropWhile is_space (CHR '' '' # CHR '' '' # replicate 499 (CHR ''a'')) =
      replicate 499 (CHR ''a'')"
    using s a dropWhile_replicate_keep [of is_space "CHR ''a''" 499] by simp
  then show ?thesis
    unfolding trim_def lead_eq rev_eq by simp
qed

lemma create_padded:
  "createReview env1 alice padded_request rated_store =
     (Success 201 ((review_of 1 10 5)\<lparr>comment := Some ''good''\<rparr>),
      rated_store\<lparr>vehicles := [demo_vehicle\<lparr>averageRating := 5, totalReviews := 1\<rparr>],
                   reviews := [(review_of 1 10 5)\<lparr>comment := Some ''good''\<rparr>]\<rparr>)"
  by (simp add: review_defs rated_defs demo_defs padded_request_def trim_padded trim_good)

text \<open>
  Claim C7, as amended. When no completed booking with the request's booking id, the
  caller's id and the request's vehicle id exists, \<open>createReview\<close> fails and leaves the
  store as it was: with 404 and the message of a missing booking when the body passes
  the route's validators, and with 400 when it does not; the validators read the
  comment as it was sent, before it is trimmed. The \<open>ValidationError\<close> is
  what the model raises: \<open>Review.create\<close> of such a review is rejected with one. Every
  review that \<open>createReview\<close> creates (201) has such a completed booking.
\<close>

theorem createReview_needs_completed_booking:
  "(\<not> (\<exists>b \<in> set (bookings st). booking_id b = rreq_bookingId r \<and> userId b = user_id u \<and>
          vehicleId b = rreq_vehicleId r \<and> status b = Completed) \<longrightarrow>
      createReview ev u r st =
        (if reviewValidation r
         then Failure 404 ''Completed booking not found or does not belong to you''
         else Failure 400 ''Validation failed'', st)) \<and>
   (\<not> (\<exists>b \<in> set (bookings st). booking_id b = bookingId rv \<and> userId b = review_userId rv \<and>
          vehicleId b = review_vehicleId rv \<and> status b = Completed) \<longrightarrow>
      (\<exists>m. Review_create rv st = Inl (ValidationError m))) \<and>
   (createReview ev u r st = (Success c rv', st') \<longrightarrow>
      c = 201 \<and> reviews st' = reviews st @ [rv'] \<and>
      (\<exists>b \<in> set (bookings st). booking_id b = rreq_bookingId r \<and> userId b = user_id u \<and>
          vehicleId b = rreq_vehicleId r \<and> status b = Completed))"
proof -
  have controller: "\<not> (\<exists>b \<in> set (bookings st). booking_id b = rreq_bookingId r \<and>
      userId b = user_id u \<and> vehicleId b = rreq_vehicleId r \<and> status b = Completed) \<longrightarrow>
      createReview ev u r st =
        (if reviewValidation r
         then Failure 404 ''Completed booking not found or does not belong to you''
         else Failure 400 ''Validation failed'', st)"
  proof
    assume "\<not> (\<exists>b \<in> set (bookings st). booking_id b = rreq_bookingId r \<and>
      userId b = user_id u \<and> vehicleId b = rreq_vehicleId r \<and> status b = Completed)"
    then have "findOne (\<lambda>b. booking_id b = rreq_bookingId r \<and> userId b = user_id u \<and>
        vehicleId b = rreq_vehicleId r \<and> status b = Completed) (bookings st) = None"
      by (auto simp: findOne_None_iff)
    then show "createReview ev u r st =
        (if reviewValidation r
         then Failure 404 ''Completed booking not found or does not belong to you''
         else Failure 400 ''Validation failed'', st)"
      by (simp add: createReview_def)
  qed
  have hook: "\<not> (\<exists>b \<in> set (bookings st). booking_id b = bookingId rv \<and>
      userId b = review_userId rv \<and> vehicleId b = review_vehicleId rv \<and> status b = Completed) \<longrightarrow>
      (\<exists>m. Review_create rv st = Inl (ValidationError m))"
  proof
    assume "\<not> (\<exists>b \<in> set (bookings st). booking_id b = bookingId rv \<and>
      userId b = review_userId rv \<and> vehicleId b = review_vehicleId rv \<and> status b = Completed)"
    then have "findOne (\<lambda>b. booking_id b = bookingId rv \<and> userId b = review_userId rv \<and>
        vehicleId b = review_vehicleId rv \<and> status b = Completed) (bookings st) = None"
      by (auto simp: findOne_None_iff)
    then show "\<exists>m. Review_create rv st = Inl (ValidationError m)"
      by (simp add: Review_create_def Let_def review_pre_save_def)
  qed
  have created: "createReview ev u r st = (Success c rv', st') \<longrightarrow>
      c = 201 \<and> reviews st' = reviews st @ [rv'] \<and>
      (\<exists>b \<in> set (bookings st). booking_id b = rreq_bookingId r \<and> userId b = user_id u \<and>
          vehicleId b = rreq_vehicleId r \<and> status b = Completed)"
  proof
    assume ok: "createReview ev u r st = (Success c rv', st')"
    then obtain b where b: "findOne (\<lambda>b. booking_id b = rreq_bookingId r \<and> userId b = user_id u \<and>
        vehicleId b = rreq_vehicleId r \<and> status b = Completed) (bookings st) = Some b"
      by (auto simp: createReview_def split: if_splits option.splits)
    from findOne_Some_set [OF b]
    have ex: "\<exists>b \<in> set (bookings st). booking_id b = rreq_bookingId r \<and> userId b = user_id u \<and>
          vehicleId b = rreq_vehicleId r \<and> status b = Completed"
      by blast
    from ok b have "c = 201 \<and> reviews st' = reviews st @ [rv']"
      by (auto simp: createReview_def Let_def
          split: if_splits option.splits sum.splits prod.splits dest: Review_create_Inr)
    with ex show "c = 201 \<and> reviews st' = reviews st @ [rv'] \<and>
      (\<exists>b \<in> set (bookings st). booking_id b = rreq_bookingId r \<and> userId b = user_id u \<and>
          vehicleId b = rreq_vehicleId r \<and> status b = Completed)"
      by blast
  qed
  from controller hook created show ?thesis by blast
qed

theorem createReview_needs_completed_booking_witness:
  "createReview env1 alice (review_request_of 1 5) approved_store =
     (Failure 404 ''Completed booking not found or does not belong to you'', approved_store) \<and>
   (\<exists>m. Review_create (review_of 1 10 5) approved_store = Inl (ValidationError m)) \<and>
   createReview env1 alice (review_request_of 1 5) rated_store =
     (Success 201 (review_of 1 10 5),
      rated_store\<lparr>vehicles := [demo_vehicle\<lparr>averageRating := 5, totalReviews := 1\<rparr>],
                   reviews := [review_of 1 10 5]\<rparr>) \<and>
   list_ex (\<lambda>b. booking_id b = 1 \<and> userId b = 10 \<and> vehicleId b = 1 \<and> status b = Completed)
     (bookings rated_store) \<and>
   length long_comment = 501 \<and> length (trim long_comment) = 499 \<and>
   createReview env1 alice ((review_request_of 1 5)\<lparr>rreq_comment := Some long_comment\<rparr>)
       approved_store =
     (Failure 400 ''Validation failed'', approved_store) \<and>
   createReview env1 alice padded_request rated_store =
     (Success 201 ((review_of 1 10 5)\<lparr>comment := Some ''good''\<rparr>),
      rated_store\<lparr>vehicles := [demo_vehicle\<lparr>averageRating := 5, totalReviews := 1\<rparr>],
                   reviews := [(review_of 1 10 5)\<lparr>comment := Some ''good''\<rparr>]\<rparr>)"
proof -
  have a: "createReview env1 alice (review_request_of 1 5) approved_store =
     (Failure 404 ''Completed booking not found or does not belong to you'', approved_store)"
    using createReview_needs_completed_booking [where st = approved_store
        and r = "review_request_of 1 5" and u = alice and ev = env1]
    by (simp add: rated_defs demo_defs reviewValidation_def maxlength_def)
  have b: "\<exists>m. Review_create (review_of 1 10 5) approved_store = Inl (ValidationError m)"
    using createReview_needs_completed_booking [where st = approved_store
        and rv = "review_of 1 10 5"]
    by (simp add: rated_defs demo_defs)
  have c: "list_ex (\<lambda>b. booking_id b = 1 \<and> userId b = 10 \<and> vehicleId b = 1 \<and> status b = Completed)
     (bookings rated_store)"
    using createReview_needs_completed_booking [where st = rated_store
        and r = "review_request_of 1 5" and u = alice and ev = env1 and c = 201
        and rv' = "review_of 1 10 5"
        and st' = "rated_store\<lparr>vehicles := [demo_vehicle\<lparr>averageRating := 5, totalReviews := 1\<rparr>],
                   reviews := [review_of 1 10 5]\<rparr>"] reviewed_1_eq
    by (simp add: list_ex_iff rated_defs demo_defs)
  have d: "createReview env1 alice ((review_request_of 1 5)\<lparr>rreq_comment := Some long_comment\<rparr>)
       approved_store =
     (Failure 400 ''Validation failed'', approved_store)"
    using createReview_needs_completed_booking [where st = approved_store
        and r = "(review_request_of 1 5)\<lparr>rreq_comment := Some long_comment\<rparr>"
        and u = alice and ev = env1]
    by (simp add: rated_defs demo_defs reviewValidation_def maxlength_def length_long_comment)
  have e: "length (trim long_comment) = 499" by (simp add: trim_long_comment)
  from a b c d e reviewed_1_eq create_padded length_long_comment show ?thesis by blast
qed

theorem createReview_not_found_counterexample:
  "reviewValidation (review_request_of 1 5) \<and>
   list_all (\<lambda>b. status b \<noteq> Completed) (bookings approved_store) \<and>
   createReview env1 alice (review_request_of 1 5) approved_store =
     (Failure 404 ''Completed booking not found or does not belong to you'', approved_store) \<and>
   http_status (fst (createReview env1 alice (review_request_of 1 5) approved_store)) \<noteq> 400"
  by (simp add: review_defs rated_defs demo_defs)

end
